theory Spec2Isabelle
  imports Main
begin

section \<open>Text\<close>

text \<open>
  Python strings are modelled as Isabelle strings: lists of 8-bit characters, a character
  outside ASCII being its UTF-8 bytes. \<open>str.strip\<close> and \<open>str.lower\<close> are modelled on the
  ASCII range; bytes from 128 on are neither white space nor letters with a case.
\<close>

definition py_space :: "char \<Rightarrow> bool" where
  "py_space c = (of_char c \<in> {9::nat, 10, 11, 12, 13, 28, 29, 30, 31, 32})"

definition strip :: "string \<Rightarrow> string" where
  "strip s = rev (dropWhile py_space (rev (dropWhile py_space s)))"

definition lower_char :: "char \<Rightarrow> char" where
  "lower_char c =
     (let n = (of_char c :: nat) in if 65 \<le> n \<and> n \<le> 90 then char_of (n + 32) else c)"

definition lower :: "string \<Rightarrow> string" where
  "lower s = map lower_char s"

text \<open>Python's \<open>sub in s\<close> on strings: \<open>sub\<close> occurs in \<open>s\<close> as a contiguous run.\<close>

fun contains :: "string \<Rightarrow> string \<Rightarrow> bool" where
  "contains [] sub = (sub = [])"
| "contains (c # cs) sub = (take (length sub) (c # cs) = sub \<or> contains cs sub)"

text \<open>\<open>sep.join(parts)\<close>.\<close>

fun join :: "string \<Rightarrow> string list \<Rightarrow> string" where
  "join sep [] = []"
| "join sep [p] = p"
| "join sep (p # q # ps) = p @ sep @ join sep (q # ps)"

section \<open>JSON values and the decoder\<close>

text \<open>
  The values \<open>json.loads\<close> returns. An object keeps its members in document order; a
  float is kept as its decimal mantissa and exponent (the value \<open>m * 10 ^ e\<close>).
\<close>

datatype json =
    JNull
  | JBool bool
  | JInt int
  | JFloat int int
  | JNaN
  | JInfinity bool
  | JStr string
  | JArr "json list"
  | JObj "(string \<times> json) list"

text \<open>
  \<open>d.get(key, default)\<close> and \<open>key in d\<close> on a decoded object: a repeated member name
  keeps its last value, as the decoder's dictionary does.
\<close>

definition dict_get :: "(string \<times> json) list \<Rightarrow> string \<Rightarrow> json \<Rightarrow> json" where
  "dict_get kvs key dflt = (case map_of (rev kvs) key of None \<Rightarrow> dflt | Some v \<Rightarrow> v)"

definition dict_has :: "(string \<times> json) list \<Rightarrow> string \<Rightarrow> bool" where
  "dict_has kvs key = (map_of (rev kvs) key \<noteq> None)"

text \<open>
  Truthiness (\<open>if v:\<close>). A float literal is zero when it rounds to zero: a mantissa of zero,
  or a magnitude of at most \<open>2 ^ -1075\<close>.
\<close>

fun truthy :: "json \<Rightarrow> bool" where
  "truthy JNull = False"
| "truthy (JBool b) = b"
| "truthy (JInt i) = (i \<noteq> 0)"
| "truthy (JFloat m e) =
     (m \<noteq> 0 \<and> (0 \<le> e \<or> \<not> (\<bar>m\<bar> * 2 ^ 1075 \<le> 10 ^ nat (- e))))"
| "truthy JNaN = True"
| "truthy (JInfinity neg) = True"
| "truthy (JStr s) = (s \<noteq> [])"
| "truthy (JArr xs) = (xs \<noteq> [])"
| "truthy (JObj kvs) = (kvs \<noteq> [])"

text \<open>The type name Python prints in \<open>'T' object has no attribute 'get'\<close>.\<close>

fun type_name :: "json \<Rightarrow> string" where
  "type_name JNull = ''NoneType''"
| "type_name (JBool b) = ''bool''"
| "type_name (JInt i) = ''int''"
| "type_name (JFloat m e) = ''float''"
| "type_name JNaN = ''float''"
| "type_name (JInfinity neg) = ''float''"
| "type_name (JStr s) = ''str''"
| "type_name (JArr xs) = ''list''"
| "type_name (JObj kvs) = ''dict''"

subsection \<open>Lexer\<close>

datatype token = TLBrace | TRBrace | TLBrack | TRBrack | TColon | TComma | TVal json

text \<open>
  The phases of a number, after the decoder's pattern
  \<open>(-?(?:0|[1-9][0-9]*))(\.[0-9]+)?([eE][-+]?[0-9]+)?\<close>.
\<close>

datatype nphase = NMinus | NZero | NInt | NDot | NFrac | NE | NESign | NExp

record numacc =
  n_neg :: bool
  n_mant :: nat
  n_fdigits :: nat
  n_isfloat :: bool
  n_eneg :: bool
  n_exp :: nat

datatype lstate =
    LStart
  | LStr string "nat option"
  | LEsc string "nat option"
  | LUni string "nat option" "nat list"
  | LNum nphase numacc
  | LLit string json

definition is_digit :: "char \<Rightarrow> bool" where
  "is_digit c = (48 \<le> (of_char c :: nat) \<and> (of_char c :: nat) \<le> 57)"

definition digit_val :: "char \<Rightarrow> nat" where
  "digit_val c = of_char c - 48"

definition hex_val :: "char \<Rightarrow> nat option" where
  "hex_val c =
     (let n = (of_char c :: nat) in
      if 48 \<le> n \<and> n \<le> 57 then Some (n - 48)
      else if 65 \<le> n \<and> n \<le> 70 then Some (n - 55)
      else if 97 \<le> n \<and> n \<le> 102 then Some (n - 87)
      else None)"

text \<open>The UTF-8 bytes of a code point (a lone surrogate is written as three bytes).\<close>

definition utf8 :: "nat \<Rightarrow> string" where
  "utf8 cp =
     (if cp < 128 then [char_of cp]
      else if cp < 2048 then [char_of (192 + cp div 64), char_of (128 + cp mod 64)]
      else if cp < 65536 then
        [char_of (224 + cp div 4096), char_of (128 + (cp div 64) mod 64),
         char_of (128 + cp mod 64)]
      else
        [char_of (240 + cp div 262144), char_of (128 + (cp div 4096) mod 64),
         char_of (128 + (cp div 64) mod 64), char_of (128 + cp mod 64)])"

definition flush :: "string \<Rightarrow> nat option \<Rightarrow> string" where
  "flush acc pend = (case pend of None \<Rightarrow> acc | Some h \<Rightarrow> acc @ utf8 h)"

text \<open>
  A \<open>\uXXXX\<close> escape has been read inside a string. A high surrogate waits for a low one
  to pair with; anything else ends the wait.
\<close>

definition add_code_point :: "string \<Rightarrow> nat option \<Rightarrow> nat \<Rightarrow> lstate" where
  "add_code_point acc pend cp =
     (case pend of
        Some h \<Rightarrow>
          if 56320 \<le> cp \<and> cp \<le> 57343
          then LStr (acc @ utf8 (65536 + (h - 55296) * 1024 + (cp - 56320))) None
          else if 55296 \<le> cp \<and> cp \<le> 56319 then LStr (acc @ utf8 h) (Some cp)
          else LStr (acc @ utf8 h @ utf8 cp) None
      | None \<Rightarrow>
          if 55296 \<le> cp \<and> cp \<le> 56319 then LStr acc (Some cp)
          else LStr (acc @ utf8 cp) None)"

definition num0 :: numacc where
  "num0 = \<lparr>n_neg = False, n_mant = 0, n_fdigits = 0, n_isfloat = False,
           n_eneg = False, n_exp = 0\<rparr>"

definition num_value :: "numacc \<Rightarrow> json" where
  "num_value a =
     (let m = (if n_neg a then - int (n_mant a) else int (n_mant a)) in
      if n_isfloat a
      then JFloat m ((if n_eneg a then - int (n_exp a) else int (n_exp a)) - int (n_fdigits a))
      else JInt m)"

definition escape_char :: "char \<Rightarrow> char option" where
  "escape_char c =
     (if c = CHR ''\"'' then Some CHR ''\"''
      else if c = CHR 0x5C then Some (CHR 0x5C)
      else if c = CHR ''/'' then Some CHR ''/''
      else if c = CHR ''b'' then Some (CHR 0x08)
      else if c = CHR ''f'' then Some (CHR 0x0C)
      else if c = CHR ''n'' then Some (CHR 0x0A)
      else if c = CHR ''r'' then Some (CHR 0x0D)
      else if c = CHR ''t'' then Some (CHR 0x09)
      else None)"

text \<open>A character read between tokens.\<close>

definition lex_start :: "char \<Rightarrow> (lstate \<times> token list) option" where
  "lex_start c =
     (if c = CHR '' '' \<or> c = CHR 0x09 \<or> c = CHR 0x0A \<or> c = CHR 0x0D then Some (LStart, [])
      else if c = CHR ''{'' then Some (LStart, [TLBrace])
      else if c = CHR ''}'' then Some (LStart, [TRBrace])
      else if c = CHR ''['' then Some (LStart, [TLBrack])
      else if c = CHR '']'' then Some (LStart, [TRBrack])
      else if c = CHR '':'' then Some (LStart, [TColon])
      else if c = CHR '','' then Some (LStart, [TComma])
      else if c = CHR ''\"'' then Some (LStr [] None, [])
      else if c = CHR ''-'' then Some (LNum NMinus (num0\<lparr>n_neg := True\<rparr>), [])
      else if c = CHR ''0'' then Some (LNum NZero num0, [])
      else if is_digit c then Some (LNum NInt (num0\<lparr>n_mant := digit_val c\<rparr>), [])
      else if c = CHR ''t'' then Some (LLit ''rue'' (JBool True), [])
      else if c = CHR ''f'' then Some (LLit ''alse'' (JBool False), [])
      else if c = CHR ''n'' then Some (LLit ''ull'' JNull, [])
      else if c = CHR ''N'' then Some (LLit ''aN'' JNaN, [])
      else if c = CHR ''I'' then Some (LLit ''nfinity'' (JInfinity False), [])
      else None)"

text \<open>
  A number ends at the first character that does not continue it; that character is then
  read as the start of the next token. A number cut short (\<open>-\<close>, \<open>1.\<close>, \<open>1e\<close>) is an error:
  what would follow the shorter match is no token.
\<close>

definition num_end :: "nphase \<Rightarrow> numacc \<Rightarrow> token option" where
  "num_end ph a =
     (if ph = NZero \<or> ph = NInt \<or> ph = NFrac \<or> ph = NExp then Some (TVal (num_value a))
      else None)"

definition num_finish :: "nphase \<Rightarrow> numacc \<Rightarrow> char \<Rightarrow> (lstate \<times> token list) option" where
  "num_finish ph a c =
     (case num_end ph a of
        None \<Rightarrow> None
      | Some t \<Rightarrow> (case lex_start c of None \<Rightarrow> None | Some (st, ts) \<Rightarrow> Some (st, t # ts)))"

definition is_e :: "char \<Rightarrow> bool" where
  "is_e c = (c = CHR ''e'' \<or> c = CHR ''E'')"

fun lex_num :: "nphase \<Rightarrow> numacc \<Rightarrow> char \<Rightarrow> (lstate \<times> token list) option" where
  "lex_num NMinus a c =
     (if c = CHR ''0'' then Some (LNum NZero a, [])
      else if is_digit c then Some (LNum NInt (a\<lparr>n_mant := digit_val c\<rparr>), [])
      else if c = CHR ''I'' then Some (LLit ''nfinity'' (JInfinity True), [])
      else None)"
| "lex_num NZero a c =
     (if c = CHR ''.'' then Some (LNum NDot a, [])
      else if is_e c then Some (LNum NE a, [])
      else num_finish NZero a c)"
| "lex_num NInt a c =
     (if is_digit c then Some (LNum NInt (a\<lparr>n_mant := n_mant a * 10 + digit_val c\<rparr>), [])
      else if c = CHR ''.'' then Some (LNum NDot a, [])
      else if is_e c then Some (LNum NE a, [])
      else num_finish NInt a c)"
| "lex_num NDot a c =
     (if is_digit c
      then Some (LNum NFrac (a\<lparr>n_mant := n_mant a * 10 + digit_val c, n_fdigits := 1,
                               n_isfloat := True\<rparr>), [])
      else None)"
| "lex_num NFrac a c =
     (if is_digit c
      then Some (LNum NFrac (a\<lparr>n_mant := n_mant a * 10 + digit_val c,
                               n_fdigits := n_fdigits a + 1\<rparr>), [])
      else if is_e c then Some (LNum NE a, [])
      else num_finish NFrac a c)"
| "lex_num NE a c =
     (if is_digit c then Some (LNum NExp (a\<lparr>n_exp := digit_val c, n_isfloat := True\<rparr>), [])
      else if c = CHR ''+'' then Some (LNum NESign a, [])
      else if c = CHR ''-'' then Some (LNum NESign (a\<lparr>n_eneg := True\<rparr>), [])
      else None)"
| "lex_num NESign a c =
     (if is_digit c then Some (LNum NExp (a\<lparr>n_exp := digit_val c, n_isfloat := True\<rparr>), [])
      else None)"
| "lex_num NExp a c =
     (if is_digit c then Some (LNum NExp (a\<lparr>n_exp := n_exp a * 10 + digit_val c\<rparr>), [])
      else num_finish NExp a c)"

fun lex_step :: "lstate \<Rightarrow> char \<Rightarrow> (lstate \<times> token list) option" where
  "lex_step LStart c = lex_start c"
| "lex_step (LStr acc pend) c =
     (if c = CHR ''\"'' then Some (LStart, [TVal (JStr (flush acc pend))])
      else if c = CHR 0x5C then Some (LEsc acc pend, [])
      else if (of_char c :: nat) < 32 then None
      else Some (LStr (flush acc pend @ [c]) None, []))"
| "lex_step (LEsc acc pend) c =
     (if c = CHR ''u'' then Some (LUni acc pend [], [])
      else (case escape_char c of
              None \<Rightarrow> None
            | Some d \<Rightarrow> Some (LStr (flush acc pend @ [d]) None, [])))"
| "lex_step (LUni acc pend ds) c =
     (case hex_val c of
        None \<Rightarrow> None
      | Some d \<Rightarrow>
          if length ds = 3
          then Some (add_code_point acc pend (foldl (\<lambda>n x. n * 16 + x) 0 (ds @ [d])), [])
          else Some (LUni acc pend (ds @ [d]), []))"
| "lex_step (LNum ph a) c = lex_num ph a c"
| "lex_step (LLit rest v) c =
     (case rest of
        [] \<Rightarrow> None
      | r # rs \<Rightarrow>
          if c \<noteq> r then None
          else if rs = [] then Some (LStart, [TVal v])
          else Some (LLit rs v, []))"

text \<open>At the end of the text only a complete number may still be open.\<close>

fun lex_end :: "lstate \<Rightarrow> token list option" where
  "lex_end LStart = Some []"
| "lex_end (LNum ph a) = (case num_end ph a of None \<Rightarrow> None | Some t \<Rightarrow> Some [t])"
| "lex_end other = None"

fun lex :: "lstate \<Rightarrow> string \<Rightarrow> token list option" where
  "lex st [] = lex_end st"
| "lex st (c # cs) =
     (case lex_step st c of
        None \<Rightarrow> None
      | Some (st', ts) \<Rightarrow> (case lex st' cs of None \<Rightarrow> None | Some us \<Rightarrow> Some (ts @ us)))"

subsection \<open>Parser\<close>

text \<open>
  The open containers form a stack; every token either opens a container, closes the
  innermost one, or adds to it.
\<close>

datatype aphase = AStart | AAfterVal | AAfterComma

datatype ophase = OStart | OAfterKey string | OAfterColon string | OAfterVal | OAfterComma

datatype frame = FArr aphase "json list" | FObj ophase "(string \<times> json) list"

type_synonym pstate = "frame list \<times> json option"

text \<open>Whether a value may come next.\<close>

fun wants_value :: "pstate \<Rightarrow> bool" where
  "wants_value ([], r) = (r = None)"
| "wants_value (FArr ph xs # fs, r) = (ph = AStart \<or> ph = AAfterComma)"
| "wants_value (FObj (OAfterColon k) kvs # fs, r) = True"
| "wants_value (FObj ph kvs # fs, r) = False"

fun put_value :: "json \<Rightarrow> pstate \<Rightarrow> pstate option" where
  "put_value v ([], r) = (if r = None then Some ([], Some v) else None)"
| "put_value v (FArr ph xs # fs, r) =
     (if ph = AStart \<or> ph = AAfterComma then Some (FArr AAfterVal (xs @ [v]) # fs, r)
      else None)"
| "put_value v (FObj (OAfterColon k) kvs # fs, r) = Some (FObj OAfterVal (kvs @ [(k, v)]) # fs, r)"
| "put_value v (FObj ph kvs # fs, r) = None"

fun parse_step :: "pstate \<Rightarrow> token \<Rightarrow> pstate option" where
  "parse_step s TLBrack = (if wants_value s then Some (FArr AStart [] # fst s, snd s) else None)"
| "parse_step s TLBrace = (if wants_value s then Some (FObj OStart [] # fst s, snd s) else None)"
| "parse_step (FArr ph xs # fs, r) TRBrack =
     (if ph = AStart \<or> ph = AAfterVal then put_value (JArr xs) (fs, r) else None)"
| "parse_step s TRBrack = None"
| "parse_step (FObj ph kvs # fs, r) TRBrace =
     (if ph = OStart \<or> ph = OAfterVal then put_value (JObj kvs) (fs, r) else None)"
| "parse_step s TRBrace = None"
| "parse_step (FArr AAfterVal xs # fs, r) TComma = Some (FArr AAfterComma xs # fs, r)"
| "parse_step (FObj OAfterVal kvs # fs, r) TComma = Some (FObj OAfterComma kvs # fs, r)"
| "parse_step s TComma = None"
| "parse_step (FObj (OAfterKey k) kvs # fs, r) TColon = Some (FObj (OAfterColon k) kvs # fs, r)"
| "parse_step s TColon = None"
| "parse_step (FObj OStart kvs # fs, r) (TVal (JStr k)) = Some (FObj (OAfterKey k) kvs # fs, r)"
| "parse_step (FObj OAfterComma kvs # fs, r) (TVal (JStr k)) =
     Some (FObj (OAfterKey k) kvs # fs, r)"
| "parse_step s (TVal v) = put_value v s"

fun parse :: "pstate \<Rightarrow> token list \<Rightarrow> json option" where
  "parse s [] = (if fst s = [] then snd s else None)"
| "parse s (t # ts) = (case parse_step s t of None \<Rightarrow> None | Some s' \<Rightarrow> parse s' ts)"

text \<open>
  \<open>json.loads\<close>: \<open>None\<close> is \<open>JSONDecodeError\<close>. The decoder skips blanks, tabs, line feeds
  and carriage returns around the value and between tokens.
\<close>

definition json_loads :: "string \<Rightarrow> json option" where
  "json_loads s = (case lex LStart s of None \<Rightarrow> None | Some ts \<Rightarrow> parse ([], None) ts)"

section \<open>Messages and the execution state\<close>

text \<open>
  A message body is a string or a list of content blocks. A block is a dictionary, given by
  its \<open>"text"\<close> entry (a string, when present) and its printed form \<open>str(block)\<close>, or
  another object, given by its printed form.
\<close>

datatype block = DictBlock "string option" string | OtherBlock string

datatype content = Str string | Blocks "block list"

fun block_text :: "block \<Rightarrow> string" where
  "block_text (DictBlock (Some t) printed) = t"
| "block_text (DictBlock None printed) = printed"
| "block_text (OtherBlock printed) = printed"

fun extract_content :: "content \<Rightarrow> string" where
  "extract_content (Str s) = s"
| "extract_content (Blocks bs) = join [CHR 0x0A] (map block_text bs)"

record tool_call =
  tc_name :: string
  tc_args :: json
  tc_id :: string

text \<open>What the model returns: a body and the tool invocations it asks for.\<close>

record response =
  r_content :: content
  r_tool_calls :: "tool_call list"

datatype message =
    SystemMessage content
  | HumanMessage content
  | AIMessage response
  | ToolMessage string string

fun content_of :: "message \<Rightarrow> content" where
  "content_of (SystemMessage c) = c"
| "content_of (HumanMessage c) = c"
| "content_of (AIMessage r) = r_content r"
| "content_of (ToolMessage c tool_call_id) = Str c"

text \<open>
  \<open>AgentState\<close>. The state is a dictionary: \<open>retry_count = None\<close> stands for a state
  without that key, which \<open>state.get("retry_count", 0)\<close> reads as 0. The final response is
  a string when a node wrote it and any decoded value when orchestrator routing wrote it.
\<close>

record AgentState =
  messages :: "message list"
  current_agent :: "string option"
  final_response :: "json option"
  retry_count :: "int option"
  validation_result :: "string option"

definition get_retry_count :: "AgentState \<Rightarrow> int" where
  "get_retry_count state = (case retry_count state of None \<Rightarrow> 0 | Some n \<Rightarrow> n)"

text \<open>Exceptions, each with the text \<open>str(e)\<close> gives.\<close>

datatype error =
    IndexError string
  | KeyError string
  | ValueError string
  | RuntimeError string
  | AttributeError string
  | ValidationError string
  | GraphRecursionError string
  | LLMError string
  | ToolError string

fun str_of_error :: "error \<Rightarrow> string" where
  "str_of_error (IndexError m) = m"
| "str_of_error (KeyError k) = [CHR 0x27] @ k @ [CHR 0x27]"
| "str_of_error (ValueError m) = m"
| "str_of_error (RuntimeError m) = m"
| "str_of_error (AttributeError m) = m"
| "str_of_error (ValidationError m) = m"
| "str_of_error (GraphRecursionError m) = m"
| "str_of_error (LLMError m) = m"
| "str_of_error (ToolError m) = m"

section \<open>Routing functions\<close>

definition MAX_RETRIES :: int where
  "MAX_RETRIES = 3"

definition MAX_ITERATIONS :: int where
  "MAX_ITERATIONS = 5"

text \<open>
  The routing functions take the state dictionary and may write to it, so each returns the
  node name together with the state as it leaves it. \<open>state["messages"][-1]\<close> raises
  \<open>IndexError\<close> on an empty history. A decoded value that is no object has no \<open>get\<close>
  (\<open>AttributeError\<close>, caught like \<open>JSONDecodeError\<close>).
\<close>

text \<open>The fallback loop of \<open>route_decision\<close>: the first agent name found in the text.\<close>

fun fallback_route :: "string \<Rightarrow> string list \<Rightarrow> string" where
  "fallback_route content_lower [] = ''__done__''"
| "fallback_route content_lower (n # ns) =
     (if contains content_lower (lower n) then n else fallback_route content_lower ns)"

definition route_decision :: "AgentState \<Rightarrow> string list \<Rightarrow> error + string \<times> AgentState" where
  "route_decision state agent_names =
     (if messages state = [] then Inl (IndexError ''list index out of range'')
      else
        let content = extract_content (content_of (last (messages state)));
            fallback = Inr (fallback_route (lower content) agent_names, state)
        in case json_loads (strip content) of
             None \<Rightarrow> fallback
           | Some (JObj data) \<Rightarrow>
               let target = dict_get data ''agent'' (JStr []) in
               if target = JStr ''__done__'' then
                 let response = dict_get data ''response'' (JStr []) in
                 Inr (''__done__'',
                      if truthy response then state\<lparr>final_response := Some response\<rparr>
                      else state)
               else (case target of
                       JStr t \<Rightarrow> if t \<in> set agent_names then Inr (t, state) else fallback
                     | _ \<Rightarrow> fallback)
           | Some _ \<Rightarrow> fallback)"

definition route_delegation :: "AgentState \<Rightarrow> string list \<Rightarrow> error + string \<times> AgentState" where
  "route_delegation state agent_names =
     (if messages state = [] then Inl (IndexError ''list index out of range'')
      else
        let content = extract_content (content_of (last (messages state)))
        in case json_loads (strip content) of
             Some (JObj data) \<Rightarrow>
               (case dict_get data ''delegate'' (JStr []) of
                  JStr t \<Rightarrow> if t \<in> set agent_names then Inr (t, state) else Inr (''__done__'', state)
                | _ \<Rightarrow> Inr (''__done__'', state))
           | _ \<Rightarrow> Inr (''__done__'', state))"

definition route_validation :: "AgentState \<Rightarrow> string \<Rightarrow> string \<times> AgentState" where
  "route_validation state first_agent_name =
     (if validation_result state = Some ''accepted'' then (''__accepted__'', state)
      else if get_retry_count state \<ge> MAX_RETRIES then (''__error__'', state)
      else (first_agent_name, state))"

section \<open>Agent types and resolved agents\<close>

record AgentTypeDefinition =
  td_name :: string
  td_description :: string
  td_model :: string
  td_tools :: "string list"

definition AGENT_TYPE_REGISTRY :: "(string \<times> AgentTypeDefinition) list" where
  "AGENT_TYPE_REGISTRY =
     [(''researcher'',
       \<lparr>td_name = ''researcher'',
        td_description = ''Expert at web research and data analysis.'',
        td_model = ''claude-sonnet-4-20250514'',
        td_tools = [''tavily_search'', ''ashby_fetch_jobs'', ''ashby_resolve_slug'',
                    ''linkedin_company'', ''linkedin_employees'', ''parse_document'']\<rparr>),
      (''coder'',
       \<lparr>td_name = ''coder'',
        td_description = ''Senior software engineer and architect.'',
        td_model = ''claude-sonnet-4-20250514'',
        td_tools = [''calculate'', ''parse_document'']\<rparr>),
      (''writer'',
       \<lparr>td_name = ''writer'',
        td_description = ''Creative writer for marketing and content.'',
        td_model = ''claude-sonnet-4-20250514'',
        td_tools = [''parse_document'']\<rparr>),
      (''analyst'',
       \<lparr>td_name = ''analyst'',
        td_description = ''Business analyst specialising in structured reasoning.'',
        td_model = ''claude-sonnet-4-20250514'',
        td_tools = [''calculate'', ''tavily_search'', ''score_candidate'', ''parse_document'']\<rparr>),
      (''validator'',
       \<lparr>td_name = ''validator'',
        td_description = ''Reviews pipeline output and accepts or rejects it.'',
        td_model = ''claude-sonnet-4-20250514'',
        td_tools = [''accept_output'', ''reject_output'']\<rparr>),
      (''sourcer'',
       \<lparr>td_name = ''sourcer'',
        td_description = ''Finds and profiles candidates on LinkedIn for a given role.'',
        td_model = ''claude-sonnet-4-20250514'',
        td_tools = [''tavily_search'', ''linkedin_employees'', ''linkedin_profile'']\<rparr>),
      (''screener'',
       \<lparr>td_name = ''screener'',
        td_description =
          ''Parses resumes and scores candidates against a job description.'',
        td_model = ''claude-sonnet-4-20250514'',
        td_tools = [''parse_document'', ''score_candidate'']\<rparr>),
      (''recruiter'',
       \<lparr>td_name = ''recruiter'',
        td_description =
          ''End-to-end recruiting coordinator '' @ [CHR 0xE2, CHR 0x80, CHR 0x94]
          @ '' discovers roles, sources, and scores candidates.'',
        td_model = ''claude-sonnet-4-20250514'',
        td_tools = [''ashby_resolve_slug'', ''ashby_fetch_jobs'', ''linkedin_company'',
                    ''linkedin_employees'', ''linkedin_profile'', ''score_candidate'']\<rparr>),
      (''notifier'',
       \<lparr>td_name = ''notifier'',
        td_description =
          ''Sends notifications via email (Resend) or Telegram based on the requested channel.'',
        td_model = ''claude-sonnet-4-20250514'',
        td_tools = [''send_email'', ''send_telegram_message'']\<rparr>),
      (''payments'',
       \<lparr>td_name = ''payments'',
        td_description = ''Handles Stripe payments, customers, invoices, and subscriptions.'',
        td_model = ''claude-sonnet-4-20250514'',
        td_tools = [''stripe_create_payment_intent'', ''stripe_create_customer'',
                    ''stripe_get_customer'', ''stripe_list_charges'', ''stripe_create_invoice'',
                    ''stripe_create_subscription'']\<rparr>)]"

record ResolvedAgent =
  ra_name :: string
  ra_type :: string
  ra_description :: string
  ra_model :: string
  ra_tools :: "string list"
  ra_prompt :: string

record SystemAgentRef =
  ref_type :: string
  ref_prompt :: string

record SystemConfig =
  sys_id :: string
  sys_name :: string
  sys_description :: "string option"
  sys_topology :: string
  sys_agents :: "SystemAgentRef list"

definition resolve_agent_type :: "string \<Rightarrow> error + AgentTypeDefinition" where
  "resolve_agent_type type_name' =
     (case map_of AGENT_TYPE_REGISTRY type_name' of
        None \<Rightarrow> Inl (ValueError (''Unknown agent type '' @ [CHR 0x27] @ type_name' @ [CHR 0x27]))
      | Some typedef' \<Rightarrow> Inr typedef')"

text \<open>\<open>str(n)\<close> for an index.\<close>

fun str_nat :: "nat \<Rightarrow> string" where
  "str_nat n = (if n < 10 then [char_of (48 + n)] else str_nat (n div 10) @ [char_of (48 + n mod 10)])"

declare str_nat.simps [simp del]

definition merge_agent :: "SystemAgentRef \<Rightarrow> nat \<Rightarrow> error + ResolvedAgent" where
  "merge_agent ref index =
     (case resolve_agent_type (ref_type ref) of
        Inl e \<Rightarrow> Inl e
      | Inr typedef' \<Rightarrow>
          Inr \<lparr>ra_name = ref_type ref @ ''_'' @ str_nat index,
               ra_type = ref_type ref,
               ra_description = td_description typedef',
               ra_model = td_model typedef',
               ra_tools = td_tools typedef',
               ra_prompt = ref_prompt ref\<rparr>)"

section \<open>Tools\<close>

text \<open>
  The names the tool modules register. A resolved tool is known by its name; what it does is
  a capability (\<open>tool_invoke\<close> below).
\<close>

definition tool_registry :: "string list" where
  "tool_registry =
     [''calculate'', ''accept_output'', ''reject_output'', ''tavily_search'',
      ''ashby_fetch_jobs'', ''ashby_resolve_slug'', ''linkedin_company'',
      ''linkedin_employees'', ''linkedin_profile'', ''parse_document'', ''score_candidate'',
      ''send_email'', ''send_telegram_message'', ''stripe_create_payment_intent'',
      ''stripe_create_customer'', ''stripe_get_customer'', ''stripe_list_charges'',
      ''stripe_create_invoice'', ''stripe_create_subscription'']"

definition resolve_tools :: "string list \<Rightarrow> error + string list" where
  "resolve_tools names =
     (let missing = filter (\<lambda>n. n \<notin> set tool_registry) names in
      if missing \<noteq> [] then Inl (ValueError (''Unknown tool(s): '' @ join '', '' missing))
      else Inr names)"

text \<open>\<open>resolve_tools(agent.tools) if agent.tools else []\<close>, as each node factory starts.\<close>

definition agent_tools :: "ResolvedAgent \<Rightarrow> error + string list" where
  "agent_tools agent = (if ra_tools agent \<noteq> [] then resolve_tools (ra_tools agent) else Inr [])"

section \<open>Node functions\<close>

text \<open>
  What a node needs from outside: whether \<open>ANTHROPIC_API_KEY\<close> is set; the model, called
  with its identifier, the names of the tools bound to it (none: \<open>[]\<close>) and the messages; the
  tools, called by name with their arguments and giving \<open>str(result)\<close>; and the digest
  \<open>hashlib.sha256(json.dumps(data, sort_keys=True).encode()).hexdigest()\<close> of a value.
  Each call returns or raises.
\<close>

record caps =
  api_key_set :: bool
  llm_invoke :: "string \<Rightarrow> string list \<Rightarrow> message list \<Rightarrow> error + response"
  tool_invoke :: "string \<Rightarrow> json \<Rightarrow> error + string"
  sha256_json :: "json \<Rightarrow> string"

definition get_llm ::
  "caps \<Rightarrow> string \<Rightarrow> string list \<Rightarrow> error + (message list \<Rightarrow> error + response)" where
  "get_llm c model_id tools =
     (if \<not> api_key_set c
      then Inl (RuntimeError ''ANTHROPIC_API_KEY environment variable is not set'')
      else Inr (llm_invoke c model_id tools))"

text \<open>\<open>tools_by_name[tc["name"]]\<close> raises \<open>KeyError\<close> for a tool the agent does not have.\<close>

fun execute_tool_calls :: "caps \<Rightarrow> tool_call list \<Rightarrow> string list \<Rightarrow> error + message list" where
  "execute_tool_calls c [] tools = Inr []"
| "execute_tool_calls c (tc # tcs) tools =
     (if tc_name tc \<notin> set tools then Inl (KeyError (tc_name tc))
      else case tool_invoke c (tc_name tc) (tc_args tc) of
             Inl e \<Rightarrow> Inl e
           | Inr result \<Rightarrow>
               (case execute_tool_calls c tcs tools of
                  Inl e \<Rightarrow> Inl e
                | Inr results \<Rightarrow> Inr (ToolMessage result (tc_id tc) # results)))"

text \<open>
  The \<open>while True\<close> loop of the three node functions: call the model until it asks for no
  tool. It returns the last response, the messages, and the tool results collected on the
  way (which only the validator keeps). A model that asks for tools for ever gives \<open>None\<close>.
\<close>

partial_function (option) tool_loop ::
  "caps \<Rightarrow> (message list \<Rightarrow> error + response) \<Rightarrow> string list \<Rightarrow> message list \<Rightarrow> message list
   \<Rightarrow> (error + response \<times> message list \<times> message list) option" where
  "tool_loop c llm tools msgs tool_results =
     (case llm msgs of
        Inl e \<Rightarrow> Some (Inl e)
      | Inr response \<Rightarrow>
          if r_tool_calls response = [] then Some (Inr (response, msgs, tool_results))
          else (case execute_tool_calls c (r_tool_calls response) tools of
                  Inl e \<Rightarrow> Some (Inl e)
                | Inr batch \<Rightarrow>
                    tool_loop c llm tools (msgs @ [AIMessage response] @ batch)
                      (tool_results @ batch)))"

declare tool_loop.simps [code]

text \<open>
  The body of the \<open>try\<close> block up to the response the node reports: get the model, run the
  loop, and ask once more without tools when the agent has tools and the text is empty.
\<close>

definition call_model ::
  "caps \<Rightarrow> string \<Rightarrow> string \<Rightarrow> string list \<Rightarrow> AgentState
   \<Rightarrow> (error + response \<times> message list) option" where
  "call_model c model_id system_prompt tools state =
     (case get_llm c model_id tools of
        Inl e \<Rightarrow> Some (Inl e)
      | Inr llm \<Rightarrow>
          (case tool_loop c llm tools (SystemMessage (Str system_prompt) # messages state) [] of
             None \<Rightarrow> None
           | Some (Inl e) \<Rightarrow> Some (Inl e)
           | Some (Inr (response, msgs, tool_results)) \<Rightarrow>
               if tools \<noteq> [] \<and> extract_content (r_content response) = [] then
                 (case get_llm c model_id [] of
                    Inl e \<Rightarrow> Some (Inl e)
                  | Inr plain \<Rightarrow>
                      (case plain msgs of
                         Inl e \<Rightarrow> Some (Inl e)
                       | Inr response' \<Rightarrow> Some (Inr (response', tool_results))))
               else Some (Inr (response, tool_results))))"

text \<open>
  The dictionary a node returns. Every node sets the first three entries; only the
  validator sets the last two (\<open>None\<close>: no such key).
\<close>

record update =
  u_messages :: "message list"
  u_current_agent :: "string option"
  u_final_response :: "string option"
  u_validation_result :: "string option"
  u_retry_count :: "int option"

definition error_message :: "string \<Rightarrow> string \<Rightarrow> error \<Rightarrow> message" where
  "error_message kind agent_name e =
     AIMessage \<lparr>r_content = Str (''Error in '' @ kind @ '' '' @ [CHR 0x27] @ agent_name
                                 @ [CHR 0x27] @ '': '' @ str_of_error e),
                r_tool_calls = []\<rparr>"

definition agent_node :: "caps \<Rightarrow> ResolvedAgent \<Rightarrow> string \<Rightarrow> string list \<Rightarrow> AgentState \<Rightarrow> update option" where
  "agent_node c agent system_prompt tools state =
     (case call_model c (ra_model agent) system_prompt tools state of
        None \<Rightarrow> None
      | Some (Inr (response, tool_results)) \<Rightarrow>
          Some \<lparr>u_messages = [AIMessage response],
                u_current_agent = Some (ra_name agent),
                u_final_response = Some (extract_content (r_content response)),
                u_validation_result = None,
                u_retry_count = None\<rparr>
      | Some (Inl e) \<Rightarrow>
          Some \<lparr>u_messages = [error_message ''agent'' (ra_name agent) e],
                u_current_agent = Some (ra_name agent),
                u_final_response = Some (str_of_error e),
                u_validation_result = None,
                u_retry_count = None\<rparr>)"

text \<open>The first tool result that carries a sentinel decides.\<close>

fun scan_sentinels :: "message list \<Rightarrow> string option" where
  "scan_sentinels [] = None"
| "scan_sentinels (tr # trs) =
     (let content = extract_content (content_of tr) in
      if contains content ''__ACCEPTED__'' then Some ''accepted''
      else if contains content ''__REJECTED__:'' then Some ''rejected''
      else scan_sentinels trs)"

definition validator_node :: "caps \<Rightarrow> ResolvedAgent \<Rightarrow> string list \<Rightarrow> AgentState \<Rightarrow> update option" where
  "validator_node c agent tools state =
     (case call_model c (ra_model agent) (ra_prompt agent) tools state of
        None \<Rightarrow> None
      | Some (Inr (response, tool_results)) \<Rightarrow>
          let validation_result' =
                (case scan_sentinels tool_results of None \<Rightarrow> ''accepted'' | Some r \<Rightarrow> r);
              retry_count' =
                (if validation_result' = ''rejected'' then get_retry_count state + 1
                 else get_retry_count state)
          in Some \<lparr>u_messages = [AIMessage response],
                   u_current_agent = Some (ra_name agent),
                   u_final_response = Some (extract_content (r_content response)),
                   u_validation_result = Some validation_result',
                   u_retry_count = Some retry_count'\<rparr>
      | Some (Inl e) \<Rightarrow>
          Some \<lparr>u_messages = [error_message ''validator'' (ra_name agent) e],
                u_current_agent = Some (ra_name agent),
                u_final_response = Some (str_of_error e),
                u_validation_result = Some ''rejected'',
                u_retry_count = Some (get_retry_count state + 1)\<rparr>)"

text \<open>The system prompt of a decentralised node lists the other agents.\<close>

definition extended_prompt :: "ResolvedAgent \<Rightarrow> ResolvedAgent list \<Rightarrow> string" where
  "extended_prompt agent all_agents =
     (let nl = [CHR 0x0A];
          other_agents = filter (\<lambda>a. ra_name a \<noteq> ra_name agent) all_agents;
          agent_descriptions =
            join nl (map (\<lambda>a. ''- **'' @ ra_name a @ ''**: '' @ ra_description a) other_agents)
      in ra_prompt agent @ nl @ nl
         @ ''## Delegation'' @ nl
         @ ''You can delegate to other agents if the request is outside your expertise.'' @ nl
         @ ''To delegate, respond ONLY with JSON:'' @ nl
         @ ''{\"delegate\": \"agent_name\", \"message\": \"what you need them to do\"}'' @ nl
         @ nl
         @ ''Available agents:'' @ nl
         @ agent_descriptions @ nl
         @ nl
         @ ''If you can handle the request yourself, respond normally (no JSON).'' @ nl
         @ ''Only delegate if the task genuinely requires another agent'' @ [CHR 0x27]
         @ ''s expertise.'')"

section \<open>Graphs\<close>

text \<open>
  A compiled graph as data: each node with what its function closes over (the agent, for a
  decentralised node its extended prompt, and the resolved tools), the entry point, and one
  outgoing edge per node, fixed or conditional. A conditional edge names its routing
  function with the argument \<open>partial\<close> fixes, and carries the \<open>destinations\<close> dictionary.
\<close>

datatype node =
    AgentNode ResolvedAgent "string list"
  | ValidatorNode ResolvedAgent "string list"
  | DecentralisedNode ResolvedAgent string "string list"

datatype target = ToNode string | END

datatype router =
    RouteDecision "string list"
  | RouteDelegation "string list"
  | RouteValidation string

datatype edge = Edge target | ConditionalEdges router "(string \<times> target) list"

record graph =
  nodes :: "(string \<times> node) list"
  entry_point :: string
  edges :: "(string \<times> edge) list"

text \<open>Reading a \<open>destinations\<close> dictionary: of two entries with one key the later one counts.\<close>

definition destination :: "(string \<times> target) list \<Rightarrow> string \<Rightarrow> target option" where
  "destination destinations label = map_of (rev destinations) label"

definition make_agent_node :: "ResolvedAgent \<Rightarrow> error + node" where
  "make_agent_node agent =
     (case agent_tools agent of Inl e \<Rightarrow> Inl e | Inr tools \<Rightarrow> Inr (AgentNode agent tools))"

definition make_validator_node :: "ResolvedAgent \<Rightarrow> error + node" where
  "make_validator_node agent =
     (case agent_tools agent of Inl e \<Rightarrow> Inl e | Inr tools \<Rightarrow> Inr (ValidatorNode agent tools))"

definition make_decentralised_node :: "ResolvedAgent \<Rightarrow> ResolvedAgent list \<Rightarrow> error + node" where
  "make_decentralised_node agent all_agents =
     (case agent_tools agent of
        Inl e \<Rightarrow> Inl e
      | Inr tools \<Rightarrow> Inr (DecentralisedNode agent (extended_prompt agent all_agents) tools))"

text \<open>\<open>for agent in agents: graph.add_node(agent.name, make(agent))\<close>; the first failure ends it.\<close>

fun add_nodes ::
  "(ResolvedAgent \<Rightarrow> error + node) \<Rightarrow> ResolvedAgent list \<Rightarrow> error + (string \<times> node) list" where
  "add_nodes mk [] = Inr []"
| "add_nodes mk (agent # agents) =
     (case mk agent of
        Inl e \<Rightarrow> Inl e
      | Inr n \<Rightarrow>
          (case add_nodes mk agents of
             Inl e \<Rightarrow> Inl e
           | Inr ns \<Rightarrow> Inr ((ra_name agent, n) # ns)))"

definition build_single :: "ResolvedAgent \<Rightarrow> error + graph" where
  "build_single agent =
     (case make_agent_node agent of
        Inl e \<Rightarrow> Inl e
      | Inr n \<Rightarrow>
          Inr \<lparr>nodes = [(ra_name agent, n)],
               entry_point = ra_name agent,
               edges = [(ra_name agent, Edge END)]\<rparr>)"

definition build_sequential :: "ResolvedAgent list \<Rightarrow> error + graph" where
  "build_sequential agents =
     (if length agents < 2 then
        (case agents of
           [] \<Rightarrow> Inl (IndexError ''list index out of range'')
         | agent # _ \<Rightarrow> build_single agent)
      else
        case add_nodes make_agent_node (butlast agents) of
          Inl e \<Rightarrow> Inl e
        | Inr ns \<Rightarrow>
            let validator = last agents in
            (case make_validator_node validator of
               Inl e \<Rightarrow> Inl e
             | Inr v \<Rightarrow>
                 let first_agent_name = ra_name (hd agents);
                     destinations =
                       [(first_agent_name, ToNode first_agent_name),
                        (''__accepted__'', END),
                        (''__error__'', END)]
                 in Inr \<lparr>nodes = ns @ [(ra_name validator, v)],
                         entry_point = ra_name (hd agents),
                         edges =
                           map (\<lambda>i. (ra_name (agents ! i), Edge (ToNode (ra_name (agents ! (i + 1))))))
                               [0 ..< length agents - 2]
                           @ [(ra_name (agents ! (length agents - 2)),
                               Edge (ToNode (ra_name validator))),
                              (ra_name validator,
                               ConditionalEdges (RouteValidation first_agent_name)
                                 destinations)]\<rparr>))"

definition build_orchestrator :: "SystemConfig \<Rightarrow> ResolvedAgent list \<Rightarrow> error + graph" where
  "build_orchestrator system agents =
     (case add_nodes make_agent_node agents of
        Inl e \<Rightarrow> Inl e
      | Inr ns \<Rightarrow>
          (case agents of
             [] \<Rightarrow> Inl (IndexError ''list index out of range'')
           | orchestrator # specialists \<Rightarrow>
               let specialist_names = map ra_name specialists;
                   destinations =
                     map (\<lambda>n. (n, ToNode n)) specialist_names @ [(''__done__'', END)]
               in Inr \<lparr>nodes = ns,
                       entry_point = ra_name orchestrator,
                       edges =
                         (ra_name orchestrator,
                          ConditionalEdges (RouteDecision specialist_names) destinations)
                         # map (\<lambda>a. (ra_name a, Edge (ToNode (ra_name orchestrator))))
                               specialists\<rparr>))"

definition build_decentralised :: "ResolvedAgent list \<Rightarrow> error + graph" where
  "build_decentralised agents =
     (let agent_names = map ra_name agents in
      case add_nodes (\<lambda>agent. make_decentralised_node agent agents) agents of
        Inl e \<Rightarrow> Inl e
      | Inr ns \<Rightarrow>
          (case agents of
             [] \<Rightarrow> Inl (IndexError ''list index out of range'')
           | entry # _ \<Rightarrow>
               let destinations = map (\<lambda>n. (n, ToNode n)) agent_names @ [(''__done__'', END)]
               in Inr \<lparr>nodes = ns,
                       entry_point = ra_name entry,
                       edges =
                         map (\<lambda>a. (ra_name a,
                                    ConditionalEdges (RouteDelegation agent_names) destinations))
                             agents\<rparr>))"

definition build_graph :: "SystemConfig \<Rightarrow> ResolvedAgent list \<Rightarrow> error + graph" where
  "build_graph system agents =
     (if sys_topology system = ''single'' then
        (case agents of
           [] \<Rightarrow> Inl (IndexError ''list index out of range'')
         | agent # _ \<Rightarrow> build_single agent)
      else if sys_topology system = ''sequential'' then build_sequential agents
      else if sys_topology system = ''orchestrator'' then build_orchestrator system agents
      else if sys_topology system = ''decentralised'' then build_decentralised agents
      else Inl (ValueError (''Unknown topology: '' @ sys_topology system)))"

section \<open>Running a graph\<close>

fun run_node :: "caps \<Rightarrow> node \<Rightarrow> AgentState \<Rightarrow> update option" where
  "run_node c (AgentNode agent tools) state = agent_node c agent (ra_prompt agent) tools state"
| "run_node c (ValidatorNode agent tools) state = validator_node c agent tools state"
| "run_node c (DecentralisedNode agent system_prompt tools) state =
     agent_node c agent system_prompt tools state"

text \<open>
  Merging a node's update into the state: new messages are appended (the \<open>add_messages\<close>
  reducer), every other key the update has replaces the old value.
\<close>

definition apply_update :: "AgentState \<Rightarrow> update \<Rightarrow> AgentState" where
  "apply_update state u =
     \<lparr>messages = messages state @ u_messages u,
      current_agent =
        (case u_current_agent u of None \<Rightarrow> current_agent state | Some a \<Rightarrow> Some a),
      final_response =
        (case u_final_response u of None \<Rightarrow> final_response state | Some r \<Rightarrow> Some (JStr r)),
      retry_count =
        (case u_retry_count u of None \<Rightarrow> retry_count state | Some n \<Rightarrow> Some n),
      validation_result =
        (case u_validation_result u of None \<Rightarrow> validation_result state | Some r \<Rightarrow> Some r)\<rparr>"

text \<open>
  The routing function of a conditional edge gives a label; what it may have written to its
  copy of the state is not kept.
\<close>

fun route :: "router \<Rightarrow> AgentState \<Rightarrow> error + string" where
  "route (RouteDecision agent_names) state =
     (case route_decision state agent_names of Inl e \<Rightarrow> Inl e | Inr (label, _) \<Rightarrow> Inr label)"
| "route (RouteDelegation agent_names) state =
     (case route_delegation state agent_names of Inl e \<Rightarrow> Inl e | Inr (label, _) \<Rightarrow> Inr label)"
| "route (RouteValidation first_agent_name) state =
     Inr (fst (route_validation state first_agent_name))"

definition next_target :: "graph \<Rightarrow> string \<Rightarrow> AgentState \<Rightarrow> error + target" where
  "next_target g current state =
     (case map_of (edges g) current of
        None \<Rightarrow> Inr END
      | Some (Edge t) \<Rightarrow> Inr t
      | Some (ConditionalEdges r destinations) \<Rightarrow>
          (case route r state of
             Inl e \<Rightarrow> Inl e
           | Inr label \<Rightarrow>
               (case destination destinations label of
                  None \<Rightarrow> Inl (KeyError label)
                | Some t \<Rightarrow> Inr t)))"

text \<open>
  \<open>graph.astream(initial_state)\<close>, as the run executor sees it: the graph library runs one
  node at a time from the entry point, merges its update into the state, reports the
  event \<open>{node_name: update}\<close> and follows the node's edge; it raises once the number of
  steps reaches its recursion limit (25 unless configured). The result is the events in
  order and the exception that ended the stream, if any; it is \<open>None\<close> when a node of the
  run does not return.
\<close>

definition recursion_limit :: nat where
  "recursion_limit = 25"

type_synonym event = "(string \<times> update) list"

fun astream ::
  "caps \<Rightarrow> graph \<Rightarrow> nat \<Rightarrow> string \<Rightarrow> AgentState \<Rightarrow> (event list \<times> error option) option" where
  "astream c g 0 current state =
     Some ([], Some (GraphRecursionError ''Recursion limit reached''))"
| "astream c g (Suc fuel) current state =
     (case map_of (nodes g) current of
        None \<Rightarrow> Some ([], Some (KeyError current))
      | Some n \<Rightarrow>
          (case run_node c n state of
             None \<Rightarrow> None
           | Some u \<Rightarrow>
               let state' = apply_update state u in
               (case next_target g current state' of
                  Inl e \<Rightarrow> Some ([], Some e)
                | Inr END \<Rightarrow> Some ([[(current, u)]], None)
                | Inr (ToNode next_node) \<Rightarrow>
                    (case astream c g fuel next_node state' of
                       None \<Rightarrow> None
                     | Some (events, raised) \<Rightarrow> Some ([(current, u)] # events, raised)))))"

section \<open>Graph cache\<close>

type_synonym cache = "string \<Rightarrow> (string \<times> graph) option"

definition model_dump :: "SystemConfig \<Rightarrow> json" where
  "model_dump system =
     JObj [(''id'', JStr (sys_id system)),
           (''name'', JStr (sys_name system)),
           (''description'',
            (case sys_description system of None \<Rightarrow> JNull | Some d \<Rightarrow> JStr d)),
           (''topology'', JStr (sys_topology system)),
           (''agents'',
            JArr (map (\<lambda>r. JObj [(''type'', JStr (ref_type r)), (''prompt'', JStr (ref_prompt r))])
                      (sys_agents system)))]"

definition hash_system :: "caps \<Rightarrow> SystemConfig \<Rightarrow> ResolvedAgent list \<Rightarrow> string" where
  "hash_system c system agents =
     (let data =
            JObj [(''system'', model_dump system),
                  (''agents'',
                   JArr (map (\<lambda>a. JObj [(''name'', JStr (ra_name a)),
                                         (''type'', JStr (ra_type a)),
                                         (''description'', JStr (ra_description a)),
                                         (''model'', JStr (ra_model a)),
                                         (''tools'', JArr (map JStr (ra_tools a))),
                                         (''prompt'', JStr (ra_prompt a))])
                             agents))]
      in take 16 (sha256_json c data))"

text \<open>What the cache writes to the log tells a hit from a build.\<close>

datatype log_record = CacheHit string | BuildingGraph string

definition get_or_build ::
  "caps \<Rightarrow> cache \<Rightarrow> SystemConfig \<Rightarrow> ResolvedAgent list
   \<Rightarrow> (error + graph) \<times> cache \<times> log_record list" where
  "get_or_build c cache system agents =
     (let config_hash = hash_system c system agents;
          build =
            (case build_graph system agents of
               Inl e \<Rightarrow> (Inl e, cache, [BuildingGraph (sys_id system)])
             | Inr g \<Rightarrow>
                 (Inr g, cache(sys_id system \<mapsto> (config_hash, g)),
                  [BuildingGraph (sys_id system)]))
      in case cache (sys_id system) of
           None \<Rightarrow> build
         | Some (cached_hash, cached_graph) \<Rightarrow>
             if cached_hash = config_hash
             then (Inr cached_graph, cache, [CacheHit (sys_id system)])
             else build)"

definition invalidate :: "cache \<Rightarrow> string option \<Rightarrow> cache" where
  "invalidate cache system_id =
     (case system_id of
        None \<Rightarrow> Map.empty
      | Some i \<Rightarrow> if i \<noteq> [] then cache(i := None) else Map.empty)"

section \<open>Run executor\<close>

record RunResponseChunk =
  chunk_type :: string
  chunk_content :: string
  chunk_agent :: "string option"

definition chunk :: "string \<Rightarrow> string \<Rightarrow> string option \<Rightarrow> RunResponseChunk" where
  "chunk t text a = \<lparr>chunk_type = t, chunk_content = text, chunk_agent = a\<rparr>"

text \<open>\<open>[merge_agent(ref, i) for i, ref in enumerate(system.agents)]\<close>.\<close>

fun merge_agents :: "SystemAgentRef list \<Rightarrow> nat \<Rightarrow> error + ResolvedAgent list" where
  "merge_agents [] i = Inr []"
| "merge_agents (ref # refs) i =
     (case merge_agent ref i of
        Inl e \<Rightarrow> Inl e
      | Inr a \<Rightarrow>
          (case merge_agents refs (i + 1) of
             Inl e \<Rightarrow> Inl e
           | Inr as \<Rightarrow> Inr (a # as)))"

definition no_get :: "json \<Rightarrow> error" where
  "no_get v =
     AttributeError ([CHR 0x27] @ type_name v @ [CHR 0x27] @ '' object has no attribute ''
                     @ [CHR 0x27] @ ''get'' @ [CHR 0x27])"

text \<open>
  The answer captured so far is \<open>final_content\<close>. One message of an update: routing JSON
  is skipped, the \<open>response\<close> of a \<open>__done__\<close> object is taken, any other text is taken as
  it is. Only \<open>JSONDecodeError\<close> and \<open>TypeError\<close> are caught here, so the \<open>AttributeError\<close>
  of \<open>parsed.get\<close> on a decoded value that is no object leaves the loop.
\<close>

definition capture_message :: "json option \<Rightarrow> message \<Rightarrow> error + json option" where
  "capture_message final_content msg =
     (let content = extract_content (content_of msg) in
      if content = [] then Inr final_content
      else case json_loads (strip content) of
             None \<Rightarrow> Inr (Some (JStr content))
           | Some (JObj parsed) \<Rightarrow>
               if dict_get parsed ''agent'' JNull = JStr ''__done__''
                  \<and> truthy (dict_get parsed ''response'' JNull)
               then Inr (Some (dict_get parsed ''response'' JNull))
               else if dict_has parsed ''agent'' \<or> dict_has parsed ''delegate''
               then Inr final_content
               else Inr (Some (JStr content))
           | Some v \<Rightarrow> Inl (no_get v))"

fun capture_messages :: "json option \<Rightarrow> message list \<Rightarrow> error + json option" where
  "capture_messages final_content [] = Inr final_content"
| "capture_messages final_content (msg # msgs) =
     (case capture_message final_content msg of
        Inl e \<Rightarrow> Inl e
      | Inr final_content' \<Rightarrow> capture_messages final_content' msgs)"

text \<open>The \<open>final_response\<close> entry of an update, when it is there and not empty.\<close>

definition capture_final_response :: "json option \<Rightarrow> string option \<Rightarrow> error + json option" where
  "capture_final_response final_content final_response' =
     (case final_response' of
        None \<Rightarrow> Inr final_content
      | Some fr \<Rightarrow>
          if fr = [] then Inr final_content
          else case json_loads fr of
                 None \<Rightarrow> Inr (Some (JStr fr))
               | Some (JObj parsed) \<Rightarrow>
                   if dict_get parsed ''agent'' JNull = JStr ''__done__''
                      \<and> truthy (dict_get parsed ''response'' JNull)
                   then Inr (Some (dict_get parsed ''response'' JNull))
                   else Inr final_content
               | Some v \<Rightarrow> Inl (no_get v))"

text \<open>
  The body of the loop for one \<open>(node_name, state_update)\<close> of an event, on the pair
  \<open>(last_agent, final_content)\<close>: the chunks it yields, and the pair it leaves or the
  exception it raises.
\<close>

type_synonym drive_state = "string option \<times> json option"

definition process_update ::
  "drive_state \<Rightarrow> string \<times> update \<Rightarrow> RunResponseChunk list \<times> (error + drive_state)" where
  "process_update ds item =
     (case ds of (last_agent, final_content) \<Rightarrow>
      case item of (node_name, state_update) \<Rightarrow>
        if node_name = ''__end__'' then ([], Inr ds)
        else
          let current = (case u_current_agent state_update of None \<Rightarrow> node_name | Some a \<Rightarrow> a);
              switched =
                (if Some current \<noteq> last_agent
                 then [chunk ''status''
                         (''Agent '' @ [CHR 0x27] @ current @ [CHR 0x27] @ '' processing...'')
                         (Some current)]
                 else []);
              rejected =
                (if u_validation_result state_update = Some ''rejected''
                 then [chunk ''validation_rejected'' ''Pipeline output rejected, retrying...''
                         (Some current)]
                 else [])
          in case capture_messages final_content (u_messages state_update) of
               Inl e \<Rightarrow> (switched @ rejected, Inl e)
             | Inr final_content' \<Rightarrow>
                 (case capture_final_response final_content' (u_final_response state_update) of
                    Inl e \<Rightarrow> (switched @ rejected, Inl e)
                  | Inr final_content'' \<Rightarrow>
                      (switched @ rejected, Inr (Some current, final_content''))))"

fun process_updates ::
  "drive_state \<Rightarrow> (string \<times> update) list \<Rightarrow> RunResponseChunk list \<times> (error + drive_state)" where
  "process_updates ds [] = ([], Inr ds)"
| "process_updates ds (item # items) =
     (case process_update ds item of
        (chunks, Inl e) \<Rightarrow> (chunks, Inl e)
      | (chunks, Inr ds') \<Rightarrow>
          (case process_updates ds' items of (chunks', r) \<Rightarrow> (chunks @ chunks', r)))"

text \<open>
  The token chunk after the loop. \<open>RunResponseChunk\<close> validates its \<open>content\<close> as a string,
  so a captured \<open>response\<close> that is no string raises.
\<close>

definition final_token :: "drive_state \<Rightarrow> RunResponseChunk list \<times> error option" where
  "final_token ds =
     (case ds of (last_agent, final_content) \<Rightarrow>
      case final_content of
        None \<Rightarrow> ([], None)
      | Some v \<Rightarrow>
          if \<not> truthy v then ([], None)
          else (case v of
                  JStr text \<Rightarrow> ([chunk ''token'' text last_agent], None)
                | _ \<Rightarrow> ([], Some (ValidationError
                                     ''1 validation error for RunResponseChunk: content''))))"

definition initial_state :: "string \<Rightarrow> AgentState" where
  "initial_state prompt =
     \<lparr>messages = [HumanMessage (Str prompt)],
      current_agent = None,
      final_response = None,
      retry_count = Some 0,
      validation_result = None\<rparr>"

text \<open>
  The \<open>try\<close> block of \<open>execute_run\<close>: the chunks it yields and the exception that ends it,
  if any.
\<close>

definition drive :: "caps \<Rightarrow> graph \<Rightarrow> string \<Rightarrow> (RunResponseChunk list \<times> error option) option" where
  "drive c g prompt =
     (case astream c g recursion_limit (entry_point g) (initial_state prompt) of
        None \<Rightarrow> None
      | Some (events, raised) \<Rightarrow>
          (case process_updates (None, None) (concat events) of
             (chunks, Inl e) \<Rightarrow> Some (chunks, Some e)
           | (chunks, Inr ds) \<Rightarrow>
               (case raised of
                  Some e \<Rightarrow> Some (chunks, Some e)
                | None \<Rightarrow>
                    (case final_token ds of (token, err) \<Rightarrow> Some (chunks @ token, err)))))"

text \<open>
  \<open>execute_run\<close> gives the chunks in the order it yields them and the cache as it leaves it.
\<close>

definition execute_run ::
  "caps \<Rightarrow> cache \<Rightarrow> SystemConfig \<Rightarrow> string \<Rightarrow> (RunResponseChunk list \<times> cache) option" where
  "execute_run c cache system prompt =
     (let build_error =
            (\<lambda>e. [chunk ''error'' (''Graph build error: '' @ str_of_error e) None,
                  chunk ''done'' [] None])
      in case merge_agents (sys_agents system) 0 of
           Inl e \<Rightarrow> Some (build_error e, cache)
         | Inr agents \<Rightarrow>
             (case get_or_build c cache system agents of
                (Inl e, cache', log) \<Rightarrow> Some (build_error e, cache')
              | (Inr g, cache', log) \<Rightarrow>
                  (case drive c g prompt of
                     None \<Rightarrow> None
                   | Some (chunks, raised) \<Rightarrow>
                       Some ([chunk ''status'' ''Processing request...'' None]
                             @ chunks
                             @ (case raised of
                                  None \<Rightarrow> []
                                | Some e \<Rightarrow>
                                    [chunk ''error'' (''Execution error: '' @ str_of_error e) None])
                             @ [chunk ''done'' [] None],
                             cache'))))"

section \<open>Example inputs\<close>

text \<open>A model that answers every call with the text \<open>42\<close> and asks for no tool.\<close>

definition caps42 :: caps where
  "caps42 =
     \<lparr>api_key_set = True,
      llm_invoke = (\<lambda>model_id tools msgs. Inr \<lparr>r_content = Str ''42'', r_tool_calls = []\<rparr>),
      tool_invoke = (\<lambda>tool_name args. Inr []),
      sha256_json = (\<lambda>data. [])\<rparr>"

definition single_system :: SystemConfig where
  "single_system =
     \<lparr>sys_id = ''s1'', sys_name = ''One writer'', sys_description = None,
      sys_topology = ''single'',
      sys_agents = [\<lparr>ref_type = ''writer'', ref_prompt = ''Answer the question.''\<rparr>]\<rparr>"

text \<open>A state as a node leaves it after the model answered with the given text.\<close>

definition state_with_text :: "string \<Rightarrow> AgentState" where
  "state_with_text text =
     \<lparr>messages = [HumanMessage (Str ''Hello''),
                  AIMessage \<lparr>r_content = Str text, r_tool_calls = []\<rparr>],
      current_agent = Some ''coder_0'',
      final_response = Some (JStr text),
      retry_count = Some 0,
      validation_result = None\<rparr>"

text \<open>Two resolved agents of a decentralised system.\<close>

definition peers :: "ResolvedAgent list" where
  "peers =
     [\<lparr>ra_name = ''coder_0'', ra_type = ''coder'',
       ra_description = ''Senior software engineer and architect.'',
       ra_model = ''claude-sonnet-4-20250514'',
       ra_tools = [''calculate'', ''parse_document''],
       ra_prompt = ''Write the code.''\<rparr>,
      \<lparr>ra_name = ''writer_1'', ra_type = ''writer'',
       ra_description = ''Creative writer for marketing and content.'',
       ra_model = ''claude-sonnet-4-20250514'',
       ra_tools = [''parse_document''],
       ra_prompt = ''Write the text.''\<rparr>]"

text \<open>
  The tools \<open>accept_output\<close>, \<open>reject_output\<close> and a \<open>calculate\<close> that knows one sum.
\<close>

definition example_tools :: "string \<Rightarrow> json \<Rightarrow> error + string" where
  "example_tools tool_name args =
     (if tool_name = ''accept_output'' then Inr ''__ACCEPTED__''
      else if tool_name = ''reject_output'' then
        (case args of
           JObj kvs \<Rightarrow>
             (case dict_get kvs ''reason'' JNull of
                JStr reason \<Rightarrow> Inr (''__REJECTED__: '' @ reason)
              | _ \<Rightarrow> Inl (ToolError ''reason: a string is required''))
         | _ \<Rightarrow> Inl (ToolError ''reason: a string is required''))
      else if tool_name = ''calculate'' \<and> args = JObj [(''expression'', JStr ''2 + 2'')]
      then Inr ''4''
      else Inl (ToolError ''tool not available''))"

fun is_tool_message :: "message \<Rightarrow> bool" where
  "is_tool_message (ToolMessage c i) = True"
| "is_tool_message m = False"

text \<open>
  A model that asks for one tool invocation and, once it sees a tool result, does what
  \<open>after\<close> says.
\<close>

definition one_tool_model ::
  "tool_call \<Rightarrow> (error + response) \<Rightarrow> string \<Rightarrow> string list \<Rightarrow> message list \<Rightarrow> error + response" where
  "one_tool_model tc after model_id tools msgs =
     (if list_ex is_tool_message msgs then after
      else Inr \<lparr>r_content = Str [], r_tool_calls = [tc]\<rparr>)"

definition caps_reject :: caps where
  "caps_reject =
     \<lparr>api_key_set = True,
      llm_invoke =
        one_tool_model
          \<lparr>tc_name = ''reject_output'', tc_args = JObj [(''reason'', JStr ''too short'')],
           tc_id = ''call_1''\<rparr>
          (Inr \<lparr>r_content = Str ''Rejected.'', r_tool_calls = []\<rparr>),
      tool_invoke = example_tools,
      sha256_json = (\<lambda>data. [])\<rparr>"

definition caps_calculate :: caps where
  "caps_calculate =
     \<lparr>api_key_set = True,
      llm_invoke =
        one_tool_model
          \<lparr>tc_name = ''calculate'', tc_args = JObj [(''expression'', JStr ''2 + 2'')],
           tc_id = ''call_1''\<rparr>
          (Inr \<lparr>r_content = Str ''The sum is right.'', r_tool_calls = []\<rparr>),
      tool_invoke = example_tools,
      sha256_json = (\<lambda>data. [])\<rparr>"

text \<open>The same, but the second call of the model fails.\<close>

definition caps_calculate_then_fail :: caps where
  "caps_calculate_then_fail =
     caps_calculate
       \<lparr>llm_invoke :=
          one_tool_model
            \<lparr>tc_name = ''calculate'', tc_args = JObj [(''expression'', JStr ''2 + 2'')],
             tc_id = ''call_1''\<rparr>
            (Inl (LLMError ''Overloaded''))\<rparr>"

definition validator_1 :: ResolvedAgent where
  "validator_1 =
     \<lparr>ra_name = ''validator_1'', ra_type = ''validator'',
      ra_description = ''Reviews pipeline output and accepts or rejects it.'',
      ra_model = ''claude-sonnet-4-20250514'',
      ra_tools = [''accept_output'', ''reject_output''],
      ra_prompt = ''Check the answer.''\<rparr>"

definition analyst_1 :: ResolvedAgent where
  "analyst_1 =
     \<lparr>ra_name = ''analyst_1'', ra_type = ''analyst'',
      ra_description = ''Business analyst specialising in structured reasoning.'',
      ra_model = ''claude-sonnet-4-20250514'',
      ra_tools = [''calculate'', ''tavily_search'', ''score_candidate'', ''parse_document''],
      ra_prompt = ''Check the sums.''\<rparr>"



definition writer_0 :: ResolvedAgent where
  "writer_0 =
     \<lparr>ra_name = ''writer_0'', ra_type = ''writer'',
      ra_description = ''Creative writer for marketing and content.'',
      ra_model = ''claude-sonnet-4-20250514'',
      ra_tools = [''parse_document''],
      ra_prompt = ''Answer the question.''\<rparr>"

definition writer_graph :: "ResolvedAgent \<Rightarrow> graph" where
  "writer_graph agent =
     \<lparr>nodes = [(''writer_0'', AgentNode agent [''parse_document''])],
      entry_point = ''writer_0'',
      edges = [(''writer_0'', Edge END)]\<rparr>"


section \<open>Properties\<close>

subsection \<open>Validation routing\<close>



subsection \<open>Orchestrator and delegation routing\<close>









lemma loads_delegate_coder:
  "json_loads (strip ''{\"delegate\": \"coder_0\"}'') = Some (JObj [(''delegate'', JStr ''coder_0'')])"
  by code_simp

lemma loads_done_x:
  "json_loads (strip ''{\"agent\": \"__done__\", \"response\": \"X\"}'')
     = Some (JObj [(''agent'', JStr ''__done__''), (''response'', JStr ''X'')])"
  by code_simp



text \<open>
  C3, as the code has it. Delegation routing and validation routing leave the state as it
  is. Orchestrator routing leaves every field but \<open>final_response\<close> as it is, and writes
  \<open>final_response\<close> only when it returns \<open>__done__\<close>. The decisions of orchestrator and
  delegation routing are functions of the text of the latest message and of the agent names;
  the decision of validation routing is a function of \<open>validation_result\<close>, \<open>retry_count\<close> and
  the first agent's name, and does not read the messages.
\<close>

theorem routing_frame:
  "(route_delegation state agent_names = Inr (label1, state1) \<longrightarrow> state1 = state)
   \<and> snd (route_validation state first_agent_name) = state
   \<and> (route_decision state agent_names = Inr (label2, state2) \<longrightarrow>
        state2\<lparr>final_response := final_response state\<rparr> = state
        \<and> (state2 \<noteq> state \<longrightarrow> label2 = ''__done__''))
   \<and> (messages state \<noteq> [] \<and> messages other \<noteq> []
        \<and> extract_content (content_of (last (messages state)))
            = extract_content (content_of (last (messages other))) \<longrightarrow>
        map_sum id fst (route_decision state agent_names)
          = map_sum id fst (route_decision other agent_names)
        \<and> map_sum id fst (route_delegation state agent_names)
          = map_sum id fst (route_delegation other agent_names))
   \<and> (validation_result state = validation_result other
        \<and> get_retry_count state = get_retry_count other \<longrightarrow>
        fst (route_validation state first_agent_name)
          = fst (route_validation other first_agent_name))"
proof (intro conjI impI)
  assume "route_delegation state agent_names = Inr (label1, state1)"
  then show "state1 = state"
    by (auto simp: route_delegation_def Let_def split: if_splits option.splits json.splits)
next
  show "snd (route_validation state first_agent_name) = state"
    by (simp add: route_validation_def)
next
  assume r: "route_decision state agent_names = Inr (label2, state2)"
  then show "state2\<lparr>final_response := final_response state\<rparr> = state"
    by (auto simp: route_decision_def Let_def split: if_splits option.splits json.splits)
  assume "state2 \<noteq> state"
  with r show "label2 = ''__done__''"
    by (auto simp: route_decision_def Let_def split: if_splits option.splits json.splits)
next
  assume a: "messages state \<noteq> [] \<and> messages other \<noteq> []
    \<and> extract_content (content_of (last (messages state)))
        = extract_content (content_of (last (messages other)))"
  then show "map_sum id fst (route_decision state agent_names)
      = map_sum id fst (route_decision other agent_names)"
    by (auto simp: route_decision_def Let_def split: option.splits json.splits)
  from a show "map_sum id fst (route_delegation state agent_names)
      = map_sum id fst (route_delegation other agent_names)"
    by (auto simp: route_delegation_def Let_def split: option.splits json.splits)
next
  assume "validation_result state = validation_result other
    \<and> get_retry_count state = get_retry_count other"
  then show "fst (route_validation state first_agent_name)
      = fst (route_validation other first_agent_name)"
    by (simp add: route_validation_def)
qed

theorem routing_frame_witness:
  "route_delegation (state_with_text ''{\"agent\": \"__done__\", \"response\": \"X\"}'') [''writer_1'']
     = Inr (''__done__'', state_with_text ''{\"agent\": \"__done__\", \"response\": \"X\"}'')
   \<and> route_decision (state_with_text ''{\"agent\": \"__done__\", \"response\": \"X\"}'') [''writer_1'']
     = Inr (''__done__'',
            (state_with_text ''{\"agent\": \"__done__\", \"response\": \"X\"}'')
              \<lparr>final_response := Some (JStr ''X'')\<rparr>)
   \<and> final_response (state_with_text ''{\"agent\": \"__done__\", \"response\": \"X\"}'')
     = Some (JStr ''{\"agent\": \"__done__\", \"response\": \"X\"}'')
   \<and> fst (route_validation (state_with_text ''{\"agent\": \"__done__\", \"response\": \"X\"}'')
            ''coder_0'')
     = fst (route_validation (state_with_text ''no'') ''coder_0'')"
  using routing_frame [of "state_with_text ''{\"agent\": \"__done__\", \"response\": \"X\"}''"
      "[''writer_1'']" "''__done__''"
      "state_with_text ''{\"agent\": \"__done__\", \"response\": \"X\"}''"
      "''coder_0''" "''__done__''"
      "(state_with_text ''{\"agent\": \"__done__\", \"response\": \"X\"}'')
         \<lparr>final_response := Some (JStr ''X'')\<rparr>"
      "state_with_text ''no''"]
  by (simp add: state_with_text_def route_decision_def route_delegation_def loads_done_x
      dict_get_def Let_def get_retry_count_def)

text \<open>
  C3, as stated, fails: on the text \<open>{"agent": "__done__", "response": "X"}\<close> orchestrator
  routing writes \<open>X\<close> to \<open>final_response\<close>.
\<close>

theorem route_decision_writes_final_response:
  "route_decision (state_with_text ''{\"agent\": \"__done__\", \"response\": \"X\"}'') [''writer_1'']
     = Inr (''__done__'',
            (state_with_text ''{\"agent\": \"__done__\", \"response\": \"X\"}'')
              \<lparr>final_response := Some (JStr ''X'')\<rparr>)
   \<and> (state_with_text ''{\"agent\": \"__done__\", \"response\": \"X\"}'')
         \<lparr>final_response := Some (JStr ''X'')\<rparr>
       \<noteq> state_with_text ''{\"agent\": \"__done__\", \"response\": \"X\"}''"
  by (simp add: state_with_text_def route_decision_def loads_done_x dict_get_def Let_def)

text \<open>
  C4. In the decentralised graph of \<open>coder_0\<close> and \<open>writer_1\<close>, when \<open>coder_0\<close> answers
  \<open>{"delegate": "coder_0"}\<close> its conditional edge leads to \<open>coder_0\<close> again: the agent names
  given to delegation routing and the destinations include the routing agent itself.
\<close>

theorem decentralised_self_delegation:
  "\<exists>g. build_decentralised peers = Inr g
       \<and> map_of (edges g) ''coder_0''
           = Some (ConditionalEdges (RouteDelegation [''coder_0'', ''writer_1''])
                     [(''coder_0'', ToNode ''coder_0''), (''writer_1'', ToNode ''writer_1''),
                      (''__done__'', END)])
       \<and> next_target g ''coder_0'' (state_with_text ''{\"delegate\": \"coder_0\"}'')
           = Inr (ToNode ''coder_0'')"
  by (simp add: build_decentralised_def peers_def make_decentralised_node_def agent_tools_def
      resolve_tools_def tool_registry_def next_target_def route_delegation_def
      state_with_text_def loads_delegate_coder dict_get_def destination_def Let_def)

subsection \<open>Graph builders\<close>

text \<open>
  C8. For a list of fewer than two agents the sequential builder gives what the single
  builder gives: with the same agents, \<open>build_graph\<close> under \<open>sequential\<close> and under \<open>single\<close>
  return the same graph or raise the same exception (\<open>IndexError\<close> on the empty list), and
  the graph of one agent is one node with a fixed edge to termination.
\<close>

theorem sequential_degrades_to_single:
  assumes "length agents < 2"
    and "sys_topology sequential = ''sequential''"
    and "sys_topology single = ''single''"
  shows "build_graph sequential agents = build_graph single agents
       \<and> (\<forall>agent. agents = [agent] \<longrightarrow>
             build_sequential agents = build_single agent
             \<and> (\<forall>g. build_single agent = Inr g \<longrightarrow>
                   map fst (nodes g) = [ra_name agent]
                   \<and> entry_point g = ra_name agent
                   \<and> edges g = [(ra_name agent, Edge END)]))"
proof (cases agents)
  case Nil
  with assms show ?thesis
    by (simp add: build_graph_def build_sequential_def)
next
  case (Cons agent rest)
  with assms(1) have "rest = []" by simp
  with Cons assms(2,3) show ?thesis
    by (auto simp: build_graph_def build_sequential_def build_single_def split: sum.splits)
qed

theorem sequential_degrades_to_single_witness:
  "length [hd peers] < 2
   \<and> sys_topology (single_system\<lparr>sys_topology := ''sequential''\<rparr>) = ''sequential''
   \<and> sys_topology single_system = ''single''
   \<and> build_graph (single_system\<lparr>sys_topology := ''sequential''\<rparr>) [hd peers]
       = build_graph single_system [hd peers]
   \<and> build_sequential [hd peers] = build_single (hd peers)
   \<and> build_single (hd peers)
       = Inr \<lparr>nodes = [(''coder_0'', AgentNode (hd peers) [''calculate'', ''parse_document''])],
              entry_point = ''coder_0'',
              edges = [(''coder_0'', Edge END)]\<rparr>"
  using sequential_degrades_to_single [of "[hd peers]"
      "single_system\<lparr>sys_topology := ''sequential''\<rparr>" single_system]
  by (simp add: single_system_def peers_def build_single_def make_agent_node_def
      agent_tools_def resolve_tools_def tool_registry_def)

subsection \<open>The validating node\<close>

text \<open>The model calls of the examples.\<close>

lemma call_model_reject:
  "call_model caps_reject (ra_model validator_1) (ra_prompt validator_1) (ra_tools validator_1)
     (state_with_text ''draft'')
   = Some (Inr (\<lparr>r_content = Str ''Rejected.'', r_tool_calls = []\<rparr>,
                [ToolMessage ''__REJECTED__: too short'' ''call_1'']))"
  by code_simp

lemma call_model_42:
  "call_model caps42 (ra_model validator_1) (ra_prompt validator_1) (ra_tools validator_1)
     (state_with_text ''draft'')
   = Some (Inr (\<lparr>r_content = Str ''42'', r_tool_calls = []\<rparr>, []))"
  by code_simp

lemma call_model_no_key:
  "call_model (caps42\<lparr>api_key_set := False\<rparr>) (ra_model validator_1) (ra_prompt validator_1)
     (ra_tools validator_1) (state_with_text ''draft'')
   = Some (Inl (RuntimeError ''ANTHROPIC_API_KEY environment variable is not set''))"
  by code_simp

lemma call_model_calculate:
  "call_model caps_calculate (ra_model analyst_1) (ra_prompt analyst_1) (ra_tools analyst_1)
     (state_with_text ''draft'')
   = Some (Inr (\<lparr>r_content = Str ''The sum is right.'', r_tool_calls = []\<rparr>,
                [ToolMessage ''4'' ''call_1'']))"
  by code_simp

lemma call_model_calculate_then_fail:
  "call_model caps_calculate_then_fail (ra_model analyst_1) (ra_prompt analyst_1)
     (ra_tools analyst_1) (state_with_text ''draft'')
   = Some (Inl (LLMError ''Overloaded''))"
  by code_simp

lemma scan_sentinels_None:
  "scan_sentinels trs = None \<longleftrightarrow>
     (\<forall>tr \<in> set trs. \<not> contains (extract_content (content_of tr)) ''__ACCEPTED__''
                        \<and> \<not> contains (extract_content (content_of tr)) ''__REJECTED__:'')"
  by (induction trs) (auto simp: Let_def)

lemma scan_sentinels_range:
  "scan_sentinels trs = Some r \<Longrightarrow> r = ''accepted'' \<or> r = ''rejected''"
  by (induction trs) (auto simp: Let_def split: if_splits)

lemma agent_node_retry_count:
  "agent_node c agent system_prompt tools state = Some u \<Longrightarrow> u_retry_count u = None"
  by (auto simp: agent_node_def split: option.splits sum.splits)

lemma validator_node_retry_count:
  assumes "validator_node c agent tools state = Some u"
  shows "(u_validation_result u = Some ''accepted''
            \<and> u_retry_count u = Some (get_retry_count state))
         \<or> (u_validation_result u = Some ''rejected''
            \<and> u_retry_count u = Some (get_retry_count state + 1))"
proof (cases "call_model c (ra_model agent) (ra_prompt agent) tools state")
  case None
  with assms show ?thesis by (simp add: validator_node_def)
next
  case (Some r)
  show ?thesis
  proof (cases r)
    case (Inl e)
    with Some assms show ?thesis by (auto simp: validator_node_def)
  next
    case (Inr p)
    obtain response tool_results where p: "p = (response, tool_results)" by (cases p)
    show ?thesis
    proof (cases "scan_sentinels tool_results")
      case None
      with Some Inr p assms show ?thesis by (auto simp: validator_node_def Let_def)
    next
      case (Some v)
      then have "v = ''accepted'' \<or> v = ''rejected''" by (rule scan_sentinels_range)
      with Some \<open>call_model c (ra_model agent) (ra_prompt agent) tools state = Some r\<close> Inr p assms
      show ?thesis by (auto simp: validator_node_def Let_def)
    qed
  qed
qed

text \<open>
  C2. No node execution lowers the retry count: merging the update of any node into the
  state leaves it equal or greater. The validating node reports \<open>accepted\<close> with the retry
  count it found, or \<open>rejected\<close> with that count plus one; a failure inside the node (its
  model or tool calls raise) is reported as \<open>rejected\<close>, with the count plus one.
\<close>

theorem retry_count_bookkeeping:
  "(run_node c n state = Some u \<longrightarrow>
      get_retry_count state \<le> get_retry_count (apply_update state u))
   \<and> (validator_node c agent tools state = Some v \<longrightarrow>
        (u_validation_result v = Some ''accepted'' \<or> u_validation_result v = Some ''rejected'')
        \<and> (u_validation_result v = Some ''accepted'' \<longrightarrow>
             get_retry_count (apply_update state v) = get_retry_count state)
        \<and> (u_validation_result v = Some ''rejected'' \<longrightarrow>
             get_retry_count (apply_update state v) = get_retry_count state + 1))
   \<and> (call_model c (ra_model agent) (ra_prompt agent) tools state = Some (Inl e) \<longrightarrow>
        (\<exists>w. validator_node c agent tools state = Some w
             \<and> u_validation_result w = Some ''rejected''
             \<and> validation_result (apply_update state w) = Some ''rejected''
             \<and> get_retry_count (apply_update state w) = get_retry_count state + 1))"
proof (intro conjI impI)
  assume r: "run_node c n state = Some u"
  show "get_retry_count state \<le> get_retry_count (apply_update state u)"
  proof (cases n)
    case (AgentNode a ts)
    with r have "u_retry_count u = None" by (auto dest: agent_node_retry_count)
    then show ?thesis by (simp add: apply_update_def get_retry_count_def)
  next
    case (ValidatorNode a ts)
    with r have "validator_node c a ts state = Some u" by simp
    from validator_node_retry_count [OF this] show ?thesis
      by (auto simp: apply_update_def get_retry_count_def)
  next
    case (DecentralisedNode a p ts)
    with r have "u_retry_count u = None" by (auto dest: agent_node_retry_count)
    then show ?thesis by (simp add: apply_update_def get_retry_count_def)
  qed
next
  assume v: "validator_node c agent tools state = Some v"
  from validator_node_retry_count [OF v]
  show "u_validation_result v = Some ''accepted'' \<or> u_validation_result v = Some ''rejected''"
    by auto
  {
    assume "u_validation_result v = Some ''accepted''"
    with validator_node_retry_count [OF v]
    show "get_retry_count (apply_update state v) = get_retry_count state"
      by (auto simp: apply_update_def get_retry_count_def)
  }
  {
    assume "u_validation_result v = Some ''rejected''"
    with validator_node_retry_count [OF v]
    show "get_retry_count (apply_update state v) = get_retry_count state + 1"
      by (auto simp: apply_update_def get_retry_count_def)
  }
next
  assume "call_model c (ra_model agent) (ra_prompt agent) tools state = Some (Inl e)"
  then show "\<exists>w. validator_node c agent tools state = Some w
      \<and> u_validation_result w = Some ''rejected''
      \<and> validation_result (apply_update state w) = Some ''rejected''
      \<and> get_retry_count (apply_update state w) = get_retry_count state + 1"
    by (simp add: validator_node_def apply_update_def get_retry_count_def)
qed

lemma validator_node_42:
  "validator_node caps42 validator_1 (ra_tools validator_1) (state_with_text ''draft'')
   = Some \<lparr>u_messages = [AIMessage \<lparr>r_content = Str ''42'', r_tool_calls = []\<rparr>],
           u_current_agent = Some ''validator_1'', u_final_response = Some ''42'',
           u_validation_result = Some ''accepted'', u_retry_count = Some 0\<rparr>"
  by code_simp

lemma validator_node_reject:
  "validator_node caps_reject validator_1 (ra_tools validator_1) (state_with_text ''draft'')
   = Some \<lparr>u_messages = [AIMessage \<lparr>r_content = Str ''Rejected.'', r_tool_calls = []\<rparr>],
           u_current_agent = Some ''validator_1'', u_final_response = Some ''Rejected.'',
           u_validation_result = Some ''rejected'', u_retry_count = Some 1\<rparr>"
  by code_simp

lemma retry_count_state_with_text: "get_retry_count (state_with_text text) = 0"
  by (simp add: get_retry_count_def state_with_text_def)

lemma retry_count_apply_update:
  "get_retry_count (apply_update state u)
     = (case u_retry_count u of None \<Rightarrow> get_retry_count state | Some n \<Rightarrow> n)"
  by (simp add: get_retry_count_def apply_update_def split: option.splits)

theorem retry_count_bookkeeping_witness:
  "run_node caps42 (ValidatorNode validator_1 (ra_tools validator_1)) (state_with_text ''draft'')
     = Some \<lparr>u_messages = [AIMessage \<lparr>r_content = Str ''42'', r_tool_calls = []\<rparr>],
             u_current_agent = Some ''validator_1'', u_final_response = Some ''42'',
             u_validation_result = Some ''accepted'', u_retry_count = Some 0\<rparr>
   \<and> get_retry_count (state_with_text ''draft'') = 0
   \<and> validator_node caps_reject validator_1 (ra_tools validator_1) (state_with_text ''draft'')
     = Some \<lparr>u_messages = [AIMessage \<lparr>r_content = Str ''Rejected.'', r_tool_calls = []\<rparr>],
             u_current_agent = Some ''validator_1'', u_final_response = Some ''Rejected.'',
             u_validation_result = Some ''rejected'', u_retry_count = Some 1\<rparr>
   \<and> get_retry_count
        (apply_update (state_with_text ''draft'')
           \<lparr>u_messages = [AIMessage \<lparr>r_content = Str ''Rejected.'', r_tool_calls = []\<rparr>],
            u_current_agent = Some ''validator_1'', u_final_response = Some ''Rejected.'',
            u_validation_result = Some ''rejected'', u_retry_count = Some 1\<rparr>) = 1
   \<and> call_model (caps42\<lparr>api_key_set := False\<rparr>) (ra_model validator_1) (ra_prompt validator_1)
        (ra_tools validator_1) (state_with_text ''draft'')
     = Some (Inl (RuntimeError ''ANTHROPIC_API_KEY environment variable is not set''))
   \<and> (\<exists>w. validator_node (caps42\<lparr>api_key_set := False\<rparr>) validator_1 (ra_tools validator_1)
              (state_with_text ''draft'') = Some w
            \<and> u_validation_result w = Some ''rejected''
            \<and> get_retry_count (apply_update (state_with_text ''draft'') w) = 1)"
  using
    retry_count_bookkeeping [of caps42 "ValidatorNode validator_1 (ra_tools validator_1)"
      "state_with_text ''draft''"
      "\<lparr>u_messages = [AIMessage \<lparr>r_content = Str ''42'', r_tool_calls = []\<rparr>],
        u_current_agent = Some ''validator_1'', u_final_response = Some ''42'',
        u_validation_result = Some ''accepted'', u_retry_count = Some 0\<rparr>"
      validator_1 "ra_tools validator_1"
      "\<lparr>u_messages = [AIMessage \<lparr>r_content = Str ''42'', r_tool_calls = []\<rparr>],
        u_current_agent = Some ''validator_1'', u_final_response = Some ''42'',
        u_validation_result = Some ''accepted'', u_retry_count = Some 0\<rparr>"
      "RuntimeError ''ANTHROPIC_API_KEY environment variable is not set''"]
    retry_count_bookkeeping [of caps_reject "ValidatorNode validator_1 (ra_tools validator_1)"
      "state_with_text ''draft''"
      "\<lparr>u_messages = [AIMessage \<lparr>r_content = Str ''Rejected.'', r_tool_calls = []\<rparr>],
        u_current_agent = Some ''validator_1'', u_final_response = Some ''Rejected.'',
        u_validation_result = Some ''rejected'', u_retry_count = Some 1\<rparr>"
      validator_1 "ra_tools validator_1"
      "\<lparr>u_messages = [AIMessage \<lparr>r_content = Str ''Rejected.'', r_tool_calls = []\<rparr>],
        u_current_agent = Some ''validator_1'', u_final_response = Some ''Rejected.'',
        u_validation_result = Some ''rejected'', u_retry_count = Some 1\<rparr>"
      "RuntimeError ''ANTHROPIC_API_KEY environment variable is not set''"]
    retry_count_bookkeeping [of "caps42\<lparr>api_key_set := False\<rparr>"
      "ValidatorNode validator_1 (ra_tools validator_1)"
      "state_with_text ''draft''"
      "\<lparr>u_messages = [], u_current_agent = None, u_final_response = None,
        u_validation_result = None, u_retry_count = None\<rparr>"
      validator_1 "ra_tools validator_1"
      "\<lparr>u_messages = [], u_current_agent = None, u_final_response = None,
        u_validation_result = None, u_retry_count = None\<rparr>"
      "RuntimeError ''ANTHROPIC_API_KEY environment variable is not set''"]
  by (auto simp: validator_node_42 validator_node_reject call_model_no_key call_model_42
      call_model_reject retry_count_state_with_text retry_count_apply_update)

text \<open>
  C9, as the code has it. When the validating node's calls of the model and of the tools
  all return, tools were invoked, and no tool result contains \<open>__ACCEPTED__\<close> or
  \<open>__REJECTED__:\<close>, the node reports \<open>accepted\<close> and the retry count it found: the implicit
  accept needs no sentinel to be absent for lack of tool calls.
\<close>

theorem implicit_accept_without_sentinel:
  assumes "call_model c (ra_model agent) (ra_prompt agent) tools state
             = Some (Inr (response, tool_results))"
    and "tool_results \<noteq> []"
    and "\<forall>tr \<in> set tool_results.
           \<not> contains (extract_content (content_of tr)) ''__ACCEPTED__''
           \<and> \<not> contains (extract_content (content_of tr)) ''__REJECTED__:''"
  shows "\<exists>u. validator_node c agent tools state = Some u
           \<and> u_validation_result u = Some ''accepted''
           \<and> u_retry_count u = Some (get_retry_count state)
           \<and> get_retry_count (apply_update state u) = get_retry_count state"
proof -
  from assms(3) have "scan_sentinels tool_results = None"
    by (simp add: scan_sentinels_None)
  with assms(1) show ?thesis
    by (simp add: validator_node_def retry_count_apply_update)
qed

lemma no_sentinel_in_4:
  "\<not> contains ''4'' ''__ACCEPTED__'' \<and> \<not> contains ''4'' ''__REJECTED__:''"
  by simp

theorem implicit_accept_without_sentinel_witness:
  "call_model caps_calculate (ra_model analyst_1) (ra_prompt analyst_1) (ra_tools analyst_1)
     (state_with_text ''draft'')
     = Some (Inr (\<lparr>r_content = Str ''The sum is right.'', r_tool_calls = []\<rparr>,
                  [ToolMessage ''4'' ''call_1'']))
   \<and> (\<exists>u. validator_node caps_calculate analyst_1 (ra_tools analyst_1)
              (state_with_text ''draft'') = Some u
            \<and> u_validation_result u = Some ''accepted''
            \<and> u_retry_count u = Some 0)"
  using implicit_accept_without_sentinel [of caps_calculate analyst_1 "ra_tools analyst_1"
      "state_with_text ''draft''"
      "\<lparr>r_content = Str ''The sum is right.'', r_tool_calls = []\<rparr>"
      "[ToolMessage ''4'' ''call_1'']"]
  by (auto simp: call_model_calculate retry_count_state_with_text)

text \<open>
  C9, as stated, fails when the node fails after a tool call: here the model asks for
  \<open>calculate\<close>, the tool returns \<open>4\<close> (no sentinel), and the next call of the model raises;
  the node reports \<open>rejected\<close> and raises the retry count from 0 to 1.
\<close>

theorem rejected_after_tool_call_without_sentinel:
  "llm_invoke caps_calculate_then_fail (ra_model analyst_1) (ra_tools analyst_1)
     (SystemMessage (Str (ra_prompt analyst_1)) # messages (state_with_text ''draft''))
     = Inr \<lparr>r_content = Str [],
            r_tool_calls = [\<lparr>tc_name = ''calculate'',
                              tc_args = JObj [(''expression'', JStr ''2 + 2'')],
                              tc_id = ''call_1''\<rparr>]\<rparr>
   \<and> execute_tool_calls caps_calculate_then_fail
        [\<lparr>tc_name = ''calculate'', tc_args = JObj [(''expression'', JStr ''2 + 2'')],
          tc_id = ''call_1''\<rparr>] (ra_tools analyst_1)
     = Inr [ToolMessage ''4'' ''call_1'']
   \<and> scan_sentinels [ToolMessage ''4'' ''call_1''] = None
   \<and> get_retry_count (state_with_text ''draft'') = 0
   \<and> validator_node caps_calculate_then_fail analyst_1 (ra_tools analyst_1)
        (state_with_text ''draft'')
     = Some \<lparr>u_messages =
               [AIMessage \<lparr>r_content = Str ''Error in validator 'analyst_1': Overloaded'',
                           r_tool_calls = []\<rparr>],
             u_current_agent = Some ''analyst_1'',
             u_final_response = Some ''Overloaded'',
             u_validation_result = Some ''rejected'',
             u_retry_count = Some 1\<rparr>"
  by code_simp

subsection \<open>Graph cache\<close>








lemma build_writer_0: "build_graph single_system [writer_0] = Inr (writer_graph writer_0)"
  by code_simp


lemma sys_id_single_system: "sys_id single_system = ''s1''"
  by (simp add: single_system_def)


subsection \<open>Run executor\<close>














text \<open>Every node returns when every tool loop on the model does.\<close>

lemma call_model_returns:
  assumes "\<And>model_id bound tools msgs trs.
             tool_loop c (llm_invoke c model_id bound) tools msgs trs \<noteq> None"
  shows "call_model c model_id system_prompt tools state \<noteq> None"
proof (cases "api_key_set c")
  case False
  then show ?thesis by (simp add: call_model_def get_llm_def)
next
  case True
  obtain r where r: "tool_loop c (llm_invoke c model_id tools) tools
      (SystemMessage (Str system_prompt) # messages state) [] = Some r"
    using assms by fastforce
  with True show ?thesis
    by (simp add: call_model_def get_llm_def split: sum.splits prod.splits)
qed

lemma run_node_returns:
  assumes "\<And>model_id bound tools msgs trs.
             tool_loop c (llm_invoke c model_id bound) tools msgs trs \<noteq> None"
  shows "run_node c n state \<noteq> None"
proof (cases n)
  case (AgentNode a ts)
  then show ?thesis
    using call_model_returns [OF assms, of "ra_model a" "ra_prompt a" ts state]
    by (auto simp: agent_node_def split: option.splits sum.splits)
next
  case (ValidatorNode a ts)
  then show ?thesis
    using call_model_returns [OF assms, of "ra_model a" "ra_prompt a" ts state]
    by (auto simp: validator_node_def Let_def split: option.splits sum.splits)
next
  case (DecentralisedNode a p ts)
  then show ?thesis
    using call_model_returns [OF assms, of "ra_model a" p ts state]
    by (auto simp: agent_node_def split: option.splits sum.splits)
qed

lemma astream_returns:
  assumes "\<And>model_id bound tools msgs trs.
             tool_loop c (llm_invoke c model_id bound) tools msgs trs \<noteq> None"
  shows "astream c g fuel current state \<noteq> None"
proof (induction fuel arbitrary: current state)
  case 0
  show ?case by simp
next
  case (Suc fuel)
  show ?case
  proof (cases "map_of (nodes g) current")
    case None
    then show ?thesis by simp
  next
    case (Some n)
    obtain u where u: "run_node c n state = Some u"
      using run_node_returns [OF assms, of n state] by auto
    show ?thesis
    proof (cases "next_target g current (apply_update state u)")
      case (Inl e)
      with Some u show ?thesis by simp
    next
      case (Inr t)
      show ?thesis
      proof (cases t)
        case END
        with Some u Inr show ?thesis by simp
      next
        case (ToNode next_node)
        obtain r where "astream c g fuel next_node (apply_update state u) = Some r"
          using Suc.IH [of next_node "apply_update state u"] by auto
        with Some u Inr ToNode show ?thesis by (cases r) simp
      qed
    qed
  qed
qed

text \<open>The loop of the run executor yields status and rejection events only.\<close>

lemma process_update_chunks:
  assumes "k \<in> set (fst (process_update ds item))"
  shows "chunk_type k = ''status'' \<or> chunk_type k = ''validation_rejected''"
  using assms
  by (cases ds; cases item)
     (auto simp: process_update_def Let_def chunk_def split: if_splits sum.splits)

lemma process_updates_chunks:
  assumes "k \<in> set (fst (process_updates ds items))"
  shows "chunk_type k = ''status'' \<or> chunk_type k = ''validation_rejected''"
  using assms
proof (induction items arbitrary: ds)
  case Nil
  then show ?case by simp
next
  case (Cons item items)
  obtain chunks r where p: "process_update ds item = (chunks, r)" by (cases "process_update ds item")
  show ?case
  proof (cases r)
    case (Inl e)
    with p Cons.prems have "k \<in> set (fst (process_update ds item))" by simp
    then show ?thesis by (rule process_update_chunks)
  next
    case (Inr ds')
    obtain chunks' r' where q: "process_updates ds' items = (chunks', r')"
      by (cases "process_updates ds' items")
    with p Inr Cons.prems have "k \<in> set chunks \<or> k \<in> set chunks'" by simp
    then show ?thesis
    proof
      assume "k \<in> set chunks"
      with p have "k \<in> set (fst (process_update ds item))" by simp
      then show ?thesis by (rule process_update_chunks)
    next
      assume "k \<in> set chunks'"
      with q have "k \<in> set (fst (process_updates ds' items))" by simp
      then show ?thesis by (rule Cons.IH)
    qed
  qed
qed

lemma final_token_chunks:
  assumes "k \<in> set (fst (final_token ds))"
  shows "chunk_type k = ''token''"
  using assms
  by (cases ds) (auto simp: final_token_def chunk_def split: option.splits if_splits json.splits)

lemma drive_chunks:
  assumes "drive c g prompt = Some (chunks, raised)" and "k \<in> set chunks"
  shows "chunk_type k \<noteq> ''done'' \<and> chunk_type k \<noteq> ''error''"
proof -
  obtain events stream_raised
    where s: "astream c g recursion_limit (entry_point g) (initial_state prompt)
              = Some (events, stream_raised)"
    using assms(1) by (auto simp: drive_def split: option.splits)
  obtain chunks0 r where p: "process_updates (None, None) (concat events) = (chunks0, r)"
    by (cases "process_updates (None, None) (concat events)")
  have loop: "\<And>x. x \<in> set chunks0 \<Longrightarrow>
      chunk_type x = ''status'' \<or> chunk_type x = ''validation_rejected''"
    using process_updates_chunks [of _ "(None, None)" "concat events"] p by simp
  have "chunk_type k = ''status'' \<or> chunk_type k = ''validation_rejected''
        \<or> chunk_type k = ''token''"
  proof (cases r)
    case (Inl e)
    with assms s p have "k \<in> set chunks0" by (auto simp: drive_def)
    then show ?thesis using loop by blast
  next
    case (Inr ds)
    show ?thesis
    proof (cases stream_raised)
      case (Some e)
      with assms s p Inr have "k \<in> set chunks0" by (auto simp: drive_def)
      then show ?thesis using loop by blast
    next
      case None
      obtain token err where t: "final_token ds = (token, err)" by (cases "final_token ds")
      with assms s p Inr None have "k \<in> set chunks0 \<or> k \<in> set token"
        by (auto simp: drive_def)
      then show ?thesis
      proof
        assume "k \<in> set chunks0"
        then show ?thesis using loop by blast
      next
        assume "k \<in> set token"
        with t have "k \<in> set (fst (final_token ds))" by simp
        then show ?thesis using final_token_chunks by blast
      qed
    qed
  qed
  then show ?thesis by auto
qed

lemma drive_returns:
  assumes "\<And>model_id bound tools msgs trs.
             tool_loop c (llm_invoke c model_id bound) tools msgs trs \<noteq> None"
  shows "\<exists>chunks raised. drive c g prompt = Some (chunks, raised)"
proof -
  obtain events stream_raised
    where "astream c g recursion_limit (entry_point g) (initial_state prompt)
           = Some (events, stream_raised)"
    using astream_returns [OF assms, of g recursion_limit "entry_point g" "initial_state prompt"]
    by auto
  then show ?thesis
    by (auto simp: drive_def split: prod.splits sum.splits option.splits)
qed

text \<open>
  C6. When the model and tool calls of the nodes return, \<open>execute_run\<close> returns, and its
  stream ends with the \<open>done\<close> event, the only one in it. It holds at most one error event.
  An exception raised while the graph is driven ends the loop and becomes one error
  event, \<open>Execution error: ...\<close>, right before \<open>done\<close>, after the events yielded until then.
\<close>

theorem execute_run_ends_with_done:
  assumes "\<And>model_id bound tools msgs trs.
             tool_loop c (llm_invoke c model_id bound) tools msgs trs \<noteq> None"
  shows "\<exists>chunks cache'.
           execute_run c cache system prompt = Some (chunks, cache')
           \<and> chunks \<noteq> []
           \<and> last chunks = chunk ''done'' [] None
           \<and> length (filter (\<lambda>k. chunk_type k = ''done'') chunks) = 1
           \<and> length (filter (\<lambda>k. chunk_type k = ''error'') chunks) \<le> 1
           \<and> (\<forall>agents g cache'' log' chunks0 e.
                 merge_agents (sys_agents system) 0 = Inr agents
                 \<and> get_or_build c cache system agents = (Inr g, cache'', log')
                 \<and> drive c g prompt = Some (chunks0, Some e) \<longrightarrow>
                 chunks = chunk ''status'' ''Processing request...'' None # chunks0
                          @ [chunk ''error'' (''Execution error: '' @ str_of_error e) None,
                             chunk ''done'' [] None])"
proof (cases "merge_agents (sys_agents system) 0")
  case (Inl e)
  then show ?thesis
    by (simp add: execute_run_def chunk_def)
next
  case (Inr agents)
  obtain built cache1 log1 where got: "get_or_build c cache system agents = (built, cache1, log1)"
    by (cases "get_or_build c cache system agents")
  show ?thesis
  proof (cases built)
    case (Inl e)
    with Inr got show ?thesis
      by (simp add: execute_run_def chunk_def)
  next
    case built_graph: (Inr g)
    obtain chunks0 raised where d: "drive c g prompt = Some (chunks0, raised)"
      using drive_returns [OF assms] by blast
    then have none: "\<And>k. k \<in> set chunks0 \<Longrightarrow>
        chunk_type k \<noteq> ''done'' \<and> chunk_type k \<noteq> ''error''"
      using drive_chunks by blast
    then have no_done: "filter (\<lambda>k. chunk_type k = ''done'') chunks0 = []"
      and no_error: "filter (\<lambda>k. chunk_type k = ''error'') chunks0 = []"
      by (auto simp: filter_empty_conv)
    let ?tail = "(case raised of
                    None \<Rightarrow> []
                  | Some e \<Rightarrow> [chunk ''error'' (''Execution error: '' @ str_of_error e) None])
                 @ [chunk ''done'' [] None]"
    let ?chunks = "chunk ''status'' ''Processing request...'' None # chunks0 @ ?tail"
    have run: "execute_run c cache system prompt = Some (?chunks, cache1)"
      using Inr got built_graph d by (simp add: execute_run_def)
    have "last ?chunks = chunk ''done'' [] None" by simp
    moreover have "length (filter (\<lambda>k. chunk_type k = ''done'') ?chunks) = 1"
      using no_done by (cases raised) (simp_all add: chunk_def)
    moreover have "length (filter (\<lambda>k. chunk_type k = ''error'') ?chunks) \<le> 1"
      using no_error by (cases raised) (simp_all add: chunk_def)
    moreover have "\<forall>agents' g' cache'' log' chunks' e.
        merge_agents (sys_agents system) 0 = Inr agents'
        \<and> get_or_build c cache system agents' = (Inr g', cache'', log')
        \<and> drive c g' prompt = Some (chunks', Some e) \<longrightarrow>
        ?chunks = chunk ''status'' ''Processing request...'' None # chunks'
                  @ [chunk ''error'' (''Execution error: '' @ str_of_error e) None,
                     chunk ''done'' [] None]"
      using Inr got built_graph d by auto
    ultimately show ?thesis using run by blast
  qed
qed

lemma caps42_loops_return:
  "tool_loop caps42 (llm_invoke caps42 model_id bound) tools msgs trs \<noteq> None"
  by (subst tool_loop.simps) (simp add: caps42_def)

lemma merge_single_system: "merge_agents (sys_agents single_system) 0 = Inr [writer_0]"
  by code_simp

lemma get_or_build_42:
  "get_or_build caps42 Map.empty single_system [writer_0]
   = (Inr (writer_graph writer_0), [''s1'' \<mapsto> ([], writer_graph writer_0)],
      [BuildingGraph ''s1''])"
  by (simp add: get_or_build_def build_writer_0 hash_system_def caps42_def sys_id_single_system)

lemma drive_42:
  "drive caps42 (writer_graph writer_0) ''What is six times seven?''
   = Some ([chunk ''status'' ''Agent 'writer_0' processing...'' (Some ''writer_0'')],
           Some (no_get (JInt 42)))"
  by code_simp

lemma str_no_get_int:
  "str_of_error (no_get (JInt 42)) = '''' @ [CHR 0x27] @ ''int' object has no attribute 'get'' @ [CHR 0x27]"
  by code_simp

theorem execute_run_ends_with_done_witness:
  "(\<forall>model_id bound tools msgs trs.
      tool_loop caps42 (llm_invoke caps42 model_id bound) tools msgs trs \<noteq> None)
   \<and> map_option fst (execute_run caps42 Map.empty single_system ''What is six times seven?'')
       = Some [chunk ''status'' ''Processing request...'' None,
               chunk ''status'' ''Agent 'writer_0' processing...'' (Some ''writer_0''),
               chunk ''error''
                 (''Execution error: '' @ [CHR 0x27] @ ''int' object has no attribute 'get''
                  @ [CHR 0x27]) None,
               chunk ''done'' [] None]"
proof
  show "\<forall>model_id bound tools msgs trs.
      tool_loop caps42 (llm_invoke caps42 model_id bound) tools msgs trs \<noteq> None"
    by (simp add: caps42_loops_return)
  obtain chunks cache'
    where run: "execute_run caps42 Map.empty single_system ''What is six times seven?''
                = Some (chunks, cache')"
      and converted: "\<forall>agents g cache'' log' chunks0 e.
        merge_agents (sys_agents single_system) 0 = Inr agents
        \<and> get_or_build caps42 Map.empty single_system agents = (Inr g, cache'', log')
        \<and> drive caps42 g ''What is six times seven?'' = Some (chunks0, Some e) \<longrightarrow>
        chunks = chunk ''status'' ''Processing request...'' None # chunks0
                 @ [chunk ''error'' (''Execution error: '' @ str_of_error e) None,
                    chunk ''done'' [] None]"
    using execute_run_ends_with_done [of caps42 Map.empty single_system
        "''What is six times seven?''", OF caps42_loops_return]
    by blast
  from converted merge_single_system get_or_build_42 drive_42
  have "chunks = chunk ''status'' ''Processing request...'' None
                 # [chunk ''status'' ''Agent 'writer_0' processing...'' (Some ''writer_0'')]
                 @ [chunk ''error'' (''Execution error: '' @ str_of_error (no_get (JInt 42))) None,
                    chunk ''done'' [] None]"
    by blast
  with run show "map_option fst
      (execute_run caps42 Map.empty single_system ''What is six times seven?'')
      = Some [chunk ''status'' ''Processing request...'' None,
              chunk ''status'' ''Agent 'writer_0' processing...'' (Some ''writer_0''),
              chunk ''error''
                (''Execution error: '' @ [CHR 0x27] @ ''int' object has no attribute 'get''
                 @ [CHR 0x27]) None,
              chunk ''done'' [] None]"
    by (simp add: str_no_get_int)
qed

end
